theory Spec2Isabelle
  imports Complex_Main "HOL-Library.Char_ord" "HOL-Library.List_Lexorder"
begin

section \<open>Python values and exceptions\<close>

text \<open>
  The exceptions the modelled functions can raise. \<open>PermissionError\<close>,
  \<open>FileNotFoundError\<close>, \<open>IsADirectoryError\<close>, \<open>NotADirectoryError\<close> and
  \<open>FileExistsError\<close> are subclasses of \<open>OSError\<close>. \<open>BadDescriptorError\<close> and
  \<open>SymlinkLoopError\<close> are the \<open>OSError\<close> with the error numbers \<open>EBADF\<close> and \<open>ELOOP\<close>, which
  have no class of their own. The constructor \<open>OSError\<close> stands for every other
  operating-system error (a name that is too long, a read-only file system, an
  unsupported operation, an I/O error). \<open>RegexError\<close> is \<open>re.error\<close>. \<open>NotModelled\<close> is
  no exception of Python: it marks an input on which the model of a library function
  says nothing.
\<close>

datatype error =
    PermissionError | FileNotFoundError | IsADirectoryError | NotADirectoryError
  | FileExistsError | BadDescriptorError | SymlinkLoopError | OSError
  | TypeError | KeyError | ValueError | OverflowError | RuntimeError | AttributeError
  | JSONDecodeError | RegexError | NotModelled

fun is_OSError :: "error \<Rightarrow> bool" where
  "is_OSError PermissionError = True"
| "is_OSError FileNotFoundError = True"
| "is_OSError IsADirectoryError = True"
| "is_OSError NotADirectoryError = True"
| "is_OSError FileExistsError = True"
| "is_OSError BadDescriptorError = True"
| "is_OSError SymlinkLoopError = True"
| "is_OSError OSError = True"
| "is_OSError _ = False"

fun is_PermissionError :: "error \<Rightarrow> bool" where
  "is_PermissionError PermissionError = True"
| "is_PermissionError _ = False"

text \<open>
  Python is dynamically typed: a dataclass built with \<open>cls(**data)\<close> stores whatever
  values the dictionary holds. The values modelled are the ones that \<open>json\<close> writes,
  tuples among them; a dictionary is an association list in insertion order with
  string keys. Floats are carried around unchanged (no arithmetic is done on them).
\<close>

datatype pyval =
    PNone | PBool bool | PInt int | PFloat real | PStr string
  | PList "pyval list" | PTuple "pyval list" | PDict "(string \<times> pyval) list"

text \<open>Truth value of an object in a condition (\<open>if not x\<close>).\<close>

fun truthy :: "pyval \<Rightarrow> bool" where
  "truthy PNone = False"
| "truthy (PBool b) = b"
| "truthy (PInt n) = (n \<noteq> 0)"
| "truthy (PFloat x) = (x \<noteq> 0)"
| "truthy (PStr s) = (s \<noteq> [])"
| "truthy (PList xs) = (xs \<noteq> [])"
| "truthy (PTuple xs) = (xs \<noteq> [])"
| "truthy (PDict kvs) = (kvs \<noteq> [])"

section \<open>File metadata: \<open>utils/permissions.py\<close>\<close>

text \<open>The dataclass \<open>FileMetadata\<close>; the fields carry the prefix \<open>fm_\<close> where the
  source's name is taken in HOL.\<close>

record FileMetadata =
  fm_path :: pyval
  fm_mode :: pyval
  fm_uid :: pyval
  fm_gid :: pyval
  fm_atime :: pyval
  fm_mtime :: pyval
  fm_size :: pyval
  is_symlink :: pyval
  symlink_target :: pyval

subsection \<open>\<open>capture_permissions\<close>\<close>

record stat_result =
  st_mode :: int
  st_uid :: int
  st_gid :: int
  st_atime :: real
  st_mtime :: real
  st_size :: int

text \<open>What the operating system answers to the three calls of \<open>capture_permissions\<close>:
  \<open>os.stat(p, follow_symlinks=False)\<close>, \<open>os.path.islink(p)\<close> and \<open>os.readlink(p)\<close>.\<close>

record os_view =
  os_stat :: "string \<Rightarrow> error + stat_result"
  os_islink :: "string \<Rightarrow> bool"
  os_readlink :: "string \<Rightarrow> error + string"

definition make_FileMetadata :: "string \<Rightarrow> stat_result \<Rightarrow> bool \<Rightarrow> pyval \<Rightarrow> FileMetadata" where
  "make_FileMetadata file_path stat_info is_link target =
     \<lparr> fm_path = PStr file_path,
       fm_mode = PInt (st_mode stat_info),
       fm_uid = PInt (st_uid stat_info),
       fm_gid = PInt (st_gid stat_info),
       fm_atime = PFloat (st_atime stat_info),
       fm_mtime = PFloat (st_mtime stat_info),
       fm_size = PInt (st_size stat_info),
       is_symlink = PBool is_link,
       symlink_target = target \<rparr>"

definition capture_permissions :: "os_view \<Rightarrow> string \<Rightarrow> error + FileMetadata" where
  "capture_permissions os file_path =
     (case os_stat os file_path of
        Inl e \<Rightarrow> Inl e
      | Inr stat_info \<Rightarrow>
          if os_islink os file_path then
            (case os_readlink os file_path of
               Inr target \<Rightarrow> Inr (make_FileMetadata file_path stat_info True (PStr target))
             | Inl e \<Rightarrow>
                 if is_OSError e then Inr (make_FileMetadata file_path stat_info False PNone)
                 else Inl e)
          else Inr (make_FileMetadata file_path stat_info False PNone))"

subsection \<open>\<open>restore_permissions\<close>\<close>

text \<open>
  The three system calls of \<open>restore_permissions\<close>. The world answers each call with
  success (\<open>None\<close>) or an exception; the answer may depend on the calls made before.
  The function returns the calls it attempted, in order, and the exception it
  propagates, if any.
\<close>

datatype syscall =
    Chown string pyval pyval
  | Chmod string pyval
  | Utime string pyval pyval

type_synonym world = "syscall list \<Rightarrow> syscall \<Rightarrow> error option"

fun is_Chmod :: "syscall \<Rightarrow> bool" where
  "is_Chmod (Chmod _ _) = True"
| "is_Chmod _ = False"

fun is_Utime :: "syscall \<Rightarrow> bool" where
  "is_Utime (Utime _ _ _) = True"
| "is_Utime _ = False"

text \<open>One \<open>try: call except <caught>: pass\<close> block: the trace grows by the call, and
  an exception outside the caught classes propagates.\<close>

definition try_call :: "world \<Rightarrow> (error \<Rightarrow> bool) \<Rightarrow> syscall list \<Rightarrow> syscall \<Rightarrow> syscall list \<times> error option" where
  "try_call w caught trace c =
     (trace @ [c],
      case w trace c of
        None \<Rightarrow> None
      | Some e \<Rightarrow> if caught e then None else Some e)"

definition restore_permissions :: "world \<Rightarrow> string \<Rightarrow> FileMetadata \<Rightarrow> syscall list \<times> error option" where
  "restore_permissions w file_path metadata =
     (case try_call w is_PermissionError [] (Chown file_path (fm_uid metadata) (fm_gid metadata)) of
        (t1, Some e) \<Rightarrow> (t1, Some e)
      | (t1, None) \<Rightarrow>
          (case (if \<not> truthy (is_symlink metadata)
                 then try_call w is_PermissionError t1 (Chmod file_path (fm_mode metadata))
                 else (t1, None)) of
             (t2, Some e) \<Rightarrow> (t2, Some e)
           | (t2, None) \<Rightarrow>
               try_call w is_OSError t2 (Utime file_path (fm_atime metadata) (fm_mtime metadata))))"


subsection \<open>Strings, \<open>oct\<close> and \<open>int(s, 8)\<close>\<close>

text \<open>
  A string is a list of characters, one per code point below 256. \<open>is_space\<close> is
  \<open>str.isspace\<close> on these code points: the characters that \<open>str.strip()\<close> removes.
  \<open>int()\<close> skips fewer: C's \<open>isspace\<close> on ASCII, and the two other spaces.
\<close>

definition is_space :: "char \<Rightarrow> bool" where
  "is_space c = (c \<in> set [CHR 0x09, CHR 0x0A, CHR 0x0B, CHR 0x0C, CHR 0x0D,
                          CHR 0x1C, CHR 0x1D, CHR 0x1E, CHR 0x1F, CHR 0x20,
                          CHR 0x85, CHR 0xA0])"

definition is_int_space :: "char \<Rightarrow> bool" where
  "is_int_space c = (c \<in> set [CHR 0x09, CHR 0x0A, CHR 0x0B, CHR 0x0C, CHR 0x0D, CHR 0x20,
                              CHR 0x85, CHR 0xA0])"

definition oct_digit :: "nat \<Rightarrow> char" where
  "oct_digit d = ''01234567'' ! (d mod 8)"

definition digit_val :: "char \<Rightarrow> nat option" where
  "digit_val c =
     (if c = CHR ''0'' then Some 0 else if c = CHR ''1'' then Some 1
      else if c = CHR ''2'' then Some 2 else if c = CHR ''3'' then Some 3
      else if c = CHR ''4'' then Some 4 else if c = CHR ''5'' then Some 5
      else if c = CHR ''6'' then Some 6 else if c = CHR ''7'' then Some 7
      else None)"

function oct_digits :: "nat \<Rightarrow> string" where
  "oct_digits n = (if n < 8 then [oct_digit n] else oct_digits (n div 8) @ [oct_digit (n mod 8)])"
  by pat_completeness auto
termination
  by (relation "measure id") auto

declare oct_digits.simps [simp del]

text \<open>\<open>oct(n)\<close>: the sign, the prefix \<open>0o\<close>, the digits of \<open>|n|\<close> in base 8.\<close>

definition py_oct :: "int \<Rightarrow> string" where
  "py_oct n = (if n < 0 then ''-0o'' @ oct_digits (nat (- n)) else ''0o'' @ oct_digits (nat n))"

text \<open>
  \<open>int(s, 8)\<close>, as CPython's \<open>PyLong_FromString\<close> reads it: surrounding whitespace, an
  optional sign, an optional prefix \<open>0o\<close> or \<open>0O\<close> (one underscore may follow it), then
  base-8 digits separated by single underscores; anything else is a \<open>ValueError\<close>.
  \<open>scan_oct acc us any cs\<close> reads the digits: \<open>us\<close> says that the previous character
  was an underscore, \<open>any\<close> that a digit has been read.
\<close>

fun scan_oct :: "nat \<Rightarrow> bool \<Rightarrow> bool \<Rightarrow> string \<Rightarrow> (nat \<times> string) option" where
  "scan_oct acc us any [] = (if us \<or> \<not> any then None else Some (acc, []))"
| "scan_oct acc us any (c # cs) =
     (if c = CHR ''_'' then (if us then None else scan_oct acc True any cs)
      else case digit_val c of
             Some d \<Rightarrow> scan_oct (acc * 8 + d) False True cs
           | None \<Rightarrow> if us \<or> \<not> any then None else Some (acc, c # cs))"

definition strip_sign :: "string \<Rightarrow> bool \<times> string" where
  "strip_sign s =
     (case s of
        c # r \<Rightarrow> if c = CHR ''+'' then (False, r) else if c = CHR ''-'' then (True, r) else (False, s)
      | [] \<Rightarrow> (False, s))"

definition strip_prefix8 :: "string \<Rightarrow> string" where
  "strip_prefix8 s =
     (case s of
        z # x # r \<Rightarrow>
          if z = CHR ''0'' \<and> (x = CHR ''o'' \<or> x = CHR ''O'')
          then (case r of u # r' \<Rightarrow> if u = CHR ''_'' then r' else r | [] \<Rightarrow> r)
          else s
      | _ \<Rightarrow> s)"

definition py_int8 :: "string \<Rightarrow> error + int" where
  "py_int8 s =
     (case strip_sign (dropWhile is_int_space s) of
        (neg, s2) \<Rightarrow>
          (case strip_prefix8 s2 of
             [] \<Rightarrow> Inl ValueError
           | c # cs \<Rightarrow>
               if c = CHR ''_'' then Inl ValueError
               else (case scan_oct 0 False False (c # cs) of
                       None \<Rightarrow> Inl ValueError
                     | Some (v, rest) \<Rightarrow>
                         if dropWhile is_int_space rest = []
                         then Inr (if neg then - int v else int v)
                         else Inl ValueError)))"

subsection \<open>Keyword arguments of a dataclass constructor\<close>

type_synonym dict = "(string \<times> pyval) list"

text \<open>\<open>data[k] = v\<close>: an existing key keeps its position, a new one goes to the end.\<close>

fun dict_set :: "dict \<Rightarrow> string \<Rightarrow> pyval \<Rightarrow> dict" where
  "dict_set [] k v = [(k, v)]"
| "dict_set ((k', v') # kvs) k v = (if k' = k then (k, v) # kvs else (k', v') # dict_set kvs k v)"

text \<open>
  \<open>cls(**kwargs)\<close> for a dataclass whose parameters are \<open>params\<close>, each with its
  default if it has one: a keyword that is no parameter and a parameter without a
  value are both a \<open>TypeError\<close>.
\<close>

fun bind_args :: "dict \<Rightarrow> (string \<times> pyval option) list \<Rightarrow> error + pyval list" where
  "bind_args kwargs [] = Inr []"
| "bind_args kwargs ((name, dflt) # ps) =
     (case (case map_of kwargs name of Some v \<Rightarrow> Some v | None \<Rightarrow> dflt) of
        None \<Rightarrow> Inl TypeError
      | Some v \<Rightarrow>
          (case bind_args kwargs ps of
             Inl e \<Rightarrow> Inl e
           | Inr vs \<Rightarrow> Inr (v # vs)))"

definition required_params :: "(string \<times> pyval option) list \<Rightarrow> string list" where
  "required_params ps = map fst (filter (\<lambda>(n, d). d = None) ps)"

definition call_with_kwargs :: "(string \<times> pyval option) list \<Rightarrow> dict \<Rightarrow> error + pyval list" where
  "call_with_kwargs params kwargs =
     (if list_ex (\<lambda>k. k \<notin> set (map fst params)) (map fst kwargs) then Inl TypeError
      else bind_args kwargs params)"

subsection \<open>\<open>FileMetadata.to_dict\<close> and \<open>FileMetadata.from_dict\<close>\<close>

definition FileMetadata_params :: "(string \<times> pyval option) list" where
  "FileMetadata_params =
     [(''path'', None), (''mode'', None), (''uid'', None), (''gid'', None),
      (''atime'', None), (''mtime'', None), (''size'', None),
      (''is_symlink'', Some (PBool False)), (''symlink_target'', Some PNone)]"

definition FileMetadata_init :: "dict \<Rightarrow> error + FileMetadata" where
  "FileMetadata_init kwargs =
     (case call_with_kwargs FileMetadata_params kwargs of
        Inl e \<Rightarrow> Inl e
      | Inr [p, m, u, g, a, t, s, l, tg] \<Rightarrow>
          Inr \<lparr> fm_path = p, fm_mode = m, fm_uid = u, fm_gid = g, fm_atime = a,
                fm_mtime = t, fm_size = s, is_symlink = l, symlink_target = tg \<rparr>
      | Inr _ \<Rightarrow> Inl TypeError)"

text \<open>\<open>oct(x)\<close> accepts integers (\<open>bool\<close> is a subclass of \<open>int\<close>) and nothing else here.\<close>

definition oct_of :: "pyval \<Rightarrow> error + string" where
  "oct_of v =
     (case v of
        PInt n \<Rightarrow> Inr (py_oct n)
      | PBool b \<Rightarrow> Inr (py_oct (if b then 1 else 0))
      | _ \<Rightarrow> Inl TypeError)"

definition FileMetadata_to_dict :: "FileMetadata \<Rightarrow> error + dict" where
  "FileMetadata_to_dict md =
     (case oct_of (fm_mode md) of
        Inl e \<Rightarrow> Inl e
      | Inr m \<Rightarrow>
          Inr [(''path'', fm_path md), (''mode'', PStr m), (''uid'', fm_uid md),
               (''gid'', fm_gid md), (''atime'', fm_atime md), (''mtime'', fm_mtime md),
               (''size'', fm_size md), (''is_symlink'', is_symlink md),
               (''symlink_target'', symlink_target md)])"

definition FileMetadata_from_dict :: "dict \<Rightarrow> error + FileMetadata" where
  "FileMetadata_from_dict data =
     (case map_of data ''mode'' of
        None \<Rightarrow> Inl KeyError
      | Some (PStr s) \<Rightarrow>
          (case py_int8 s of
             Inl e \<Rightarrow> Inl e
           | Inr n \<Rightarrow> FileMetadata_init (dict_set data ''mode'' (PInt n)))
      | Some _ \<Rightarrow> FileMetadata_init data)"

section \<open>The manifest: \<open>core/metadata.py\<close>\<close>

subsection \<open>Files\<close>

text \<open>
  The file system maps a path to what is there: a regular file with its content, a
  directory, or an entry the process may not open. A path is a string, and
  \<open>path_join a b\<close> is \<open>a / b\<close> of \<open>pathlib\<close> (an absolute right operand replaces the
  left one), up to the normalisation that \<open>pathlib\<close> applies to redundant separators.
\<close>

datatype 'c node = RegFile 'c | Directory | NoAccess

type_synonym 'c fs = "string \<Rightarrow> 'c node option"

definition path_join :: "string \<Rightarrow> string \<Rightarrow> string" where
  "path_join a b = (case b of c # _ \<Rightarrow> if c = CHR ''/'' then b else a @ ''/'' @ b | [] \<Rightarrow> a)"

text \<open>
  \<open>Path.exists()\<close> calls \<open>stat()\<close>. \<open>stat_error p\<close> is the exception that \<open>stat()\<close> raises for
  \<open>p\<close> whatever is or is not there (a name that is too long, a directory on the way
  that may not be searched); without one, \<open>stat()\<close> succeeds exactly when there is an
  entry. \<open>exists()\<close> answers \<open>False\<close> to the errors \<open>ENOENT\<close>, \<open>ENOTDIR\<close>, \<open>EBADF\<close> and
  \<open>ELOOP\<close> and to a \<open>ValueError\<close>, and lets every other exception through.
\<close>

definition path_exists :: "(string \<Rightarrow> error option) \<Rightarrow> 'c fs \<Rightarrow> string \<Rightarrow> error + bool" where
  "path_exists stat_error fs p =
     (case stat_error p of
        None \<Rightarrow> Inr (fs p \<noteq> None)
      | Some e \<Rightarrow>
          if e = FileNotFoundError \<or> e = NotADirectoryError \<or> e = BadDescriptorError
             \<or> e = SymlinkLoopError \<or> e = ValueError
          then Inr False
          else Inl e)"

text \<open>\<open>open(p, "r")\<close> or \<open>open(p, "rb")\<close> followed by reading the whole file.\<close>

definition read_file :: "'c fs \<Rightarrow> string \<Rightarrow> error + 'c" where
  "read_file fs p =
     (case fs p of
        None \<Rightarrow> Inl FileNotFoundError
      | Some Directory \<Rightarrow> Inl IsADirectoryError
      | Some NoAccess \<Rightarrow> Inl PermissionError
      | Some (RegFile c) \<Rightarrow> Inr c)"

text \<open>\<open>open(p, "w")\<close> followed by writing \<open>c\<close>: the directory \<open>parent\<close> of \<open>p\<close> has to be
  there, and \<open>p\<close> itself must be a regular file or absent.\<close>

definition write_file :: "'c fs \<Rightarrow> string \<Rightarrow> string \<Rightarrow> 'c \<Rightarrow> error + 'c fs" where
  "write_file fs parent p c =
     (case fs parent of
        None \<Rightarrow> Inl FileNotFoundError
      | Some (RegFile _) \<Rightarrow> Inl NotADirectoryError
      | Some NoAccess \<Rightarrow> Inl PermissionError
      | Some Directory \<Rightarrow>
          (case fs p of
             Some Directory \<Rightarrow> Inl IsADirectoryError
           | Some NoAccess \<Rightarrow> Inl PermissionError
           | _ \<Rightarrow> Inr (fs(p \<mapsto> RegFile c))))"

subsection \<open>\<open>BackupMetadata\<close>\<close>

record BackupMetadata =
  backup_id :: pyval
  backup_type :: pyval
  timestamp :: pyval
  hostname :: pyval
  kernel_version :: pyval
  bread_version :: pyval
  compression :: pyval
  parent_backup_id :: pyval
  components :: pyval
  exclude_patterns :: pyval
  checksums :: pyval

definition BackupMetadata_to_dict :: "BackupMetadata \<Rightarrow> pyval" where
  "BackupMetadata_to_dict m =
     PDict [(''backup_id'', backup_id m),
            (''backup_type'', backup_type m),
            (''parent_backup_id'', parent_backup_id m),
            (''timestamp'', timestamp m),
            (''hostname'', hostname m),
            (''kernel_version'', kernel_version m),
            (''bread_version'', bread_version m),
            (''compression'', compression m),
            (''components'', components m),
            (''exclude_patterns'', exclude_patterns m),
            (''checksums'', checksums m)]"

text \<open>The parameters of the generated \<open>__init__\<close>, in the order of the fields; the last
  four have defaults (\<open>None\<close>, and fresh empty containers).\<close>

definition BackupMetadata_params :: "(string \<times> pyval option) list" where
  "BackupMetadata_params =
     [(''backup_id'', None), (''backup_type'', None), (''timestamp'', None),
      (''hostname'', None), (''kernel_version'', None), (''bread_version'', None),
      (''compression'', None),
      (''parent_backup_id'', Some PNone), (''components'', Some (PDict [])),
      (''exclude_patterns'', Some (PList [])), (''checksums'', Some (PDict []))]"

definition BackupMetadata_init :: "dict \<Rightarrow> error + BackupMetadata" where
  "BackupMetadata_init kwargs =
     (case call_with_kwargs BackupMetadata_params kwargs of
        Inl e \<Rightarrow> Inl e
      | Inr [bi, bt, ts, hn, kv, bv, co, pb, cs, ex, ch] \<Rightarrow>
          Inr \<lparr> backup_id = bi, backup_type = bt, timestamp = ts, hostname = hn,
                kernel_version = kv, bread_version = bv, compression = co,
                parent_backup_id = pb, components = cs, exclude_patterns = ex,
                checksums = ch \<rparr>
      | Inr _ \<Rightarrow> Inl TypeError)"

text \<open>\<open>cls(**data)\<close>: \<open>data\<close> is whatever \<open>json.load\<close> returned; anything but a mapping is
  a \<open>TypeError\<close>.\<close>

definition BackupMetadata_from_dict :: "pyval \<Rightarrow> error + BackupMetadata" where
  "BackupMetadata_from_dict data =
     (case data of
        PDict kwargs \<Rightarrow> BackupMetadata_init kwargs
      | _ \<Rightarrow> Inl TypeError)"

subsection \<open>The \<open>json\<close> module\<close>

text \<open>
  A JSON document, and what a text file holds when it is read as JSON: a document,
  or text that is none. \<open>to_json\<close> is the document that \<open>json.dump\<close> writes for a value
  (a tuple is written as an array, like a list), \<open>of_json\<close> the value that \<open>json.load\<close>
  builds from a document (an array becomes a list). The characters of the text are
  not modelled.
\<close>

datatype json =
    JNull | JBool bool | JInt int | JFloat real | JString string
  | JArray "json list" | JObject "(string \<times> json) list"

datatype json_file = Document json | Malformed

fun to_json :: "pyval \<Rightarrow> json" where
  "to_json PNone = JNull"
| "to_json (PBool b) = JBool b"
| "to_json (PInt n) = JInt n"
| "to_json (PFloat x) = JFloat x"
| "to_json (PStr s) = JString s"
| "to_json (PList xs) = JArray (map to_json xs)"
| "to_json (PTuple xs) = JArray (map to_json xs)"
| "to_json (PDict kvs) = JObject (map (\<lambda>(k, v). (k, to_json v)) kvs)"

fun of_json :: "json \<Rightarrow> pyval" where
  "of_json JNull = PNone"
| "of_json (JBool b) = PBool b"
| "of_json (JInt n) = PInt n"
| "of_json (JFloat x) = PFloat x"
| "of_json (JString s) = PStr s"
| "of_json (JArray xs) = PList (map of_json xs)"
| "of_json (JObject kvs) = PDict (map (\<lambda>(k, v). (k, of_json v)) kvs)"

definition json_dump :: "pyval \<Rightarrow> json_file" where
  "json_dump v = Document (to_json v)"

definition json_load :: "json_file \<Rightarrow> error + pyval" where
  "json_load f = (case f of Document j \<Rightarrow> Inr (of_json j) | Malformed \<Rightarrow> Inl JSONDecodeError)"

text \<open>The values that JSON has a form of their own for: no tuple anywhere inside.\<close>

fun json_native :: "pyval \<Rightarrow> bool" where
  "json_native (PList xs) = list_all json_native xs"
| "json_native (PTuple xs) = False"
| "json_native (PDict kvs) = list_all (\<lambda>(k, v). json_native v) kvs"
| "json_native _ = True"

subsection \<open>\<open>MetadataManager\<close>\<close>

definition MANIFEST_FILENAME :: string where
  "MANIFEST_FILENAME = ''manifest.json''"

text \<open>
  \<open>save_metadata\<close> and \<open>load_metadata\<close> take the two functions of the \<open>json\<close> module as
  parameters: \<open>dumps\<close> is what \<open>json.dump(v, f, indent=2)\<close> writes, \<open>loads\<close> is what
  \<open>json.load(f)\<close> makes of a file (a \<open>JSONDecodeError\<close> when it is malformed). They
  are \<open>json_dump\<close> and \<open>json_load\<close>.
\<close>

definition save_metadata ::
  "(pyval \<Rightarrow> 'c) \<Rightarrow> 'c fs \<Rightarrow> BackupMetadata \<Rightarrow> string \<Rightarrow> error + 'c fs" where
  "save_metadata dumps fs metadata output_path =
     (let manifest_path = path_join output_path MANIFEST_FILENAME
      in write_file fs output_path manifest_path (dumps (BackupMetadata_to_dict metadata)))"

definition load_metadata ::
  "('c \<Rightarrow> error + pyval) \<Rightarrow> 'c fs \<Rightarrow> string \<Rightarrow> error + BackupMetadata" where
  "load_metadata loads fs manifest_path =
     (case read_file fs manifest_path of
        Inl e \<Rightarrow> Inl e
      | Inr text \<Rightarrow>
          (case loads text of
             Inl e \<Rightarrow> Inl e
           | Inr data \<Rightarrow> BackupMetadata_from_dict data))"

text \<open>\<open>calculate_file_checksum\<close>: \<open>sha256_hex\<close> is the hex digest of SHA-256 over the
  whole content (\<open>hashlib\<close>, fed in chunks of 8192 bytes).\<close>

definition calculate_file_checksum :: "('c \<Rightarrow> string) \<Rightarrow> 'c fs \<Rightarrow> string \<Rightarrow> error + string" where
  "calculate_file_checksum sha256_hex fs file_path =
     (case read_file fs file_path of
        Inl e \<Rightarrow> Inl e
      | Inr content \<Rightarrow> Inr (sha256_hex content))"

text \<open>
  The messages that the functions print: the warning about a missing file, the three
  lines about a checksum mismatch (the path, the expected and the actual checksum),
  and the notice of the collector about a missing configuration directory. Printing
  can raise (a character that the output cannot encode, a closed stream, markup that
  the console rejects): \<open>print_error msg\<close> is that exception, if any.
\<close>

datatype message =
    MissingFile string
  | ChecksumMismatch string pyval string
  | ConfigDirNotFound string

text \<open>The loop of \<open>verify_checksums\<close> over \<open>metadata.checksums.items()\<close>.\<close>

fun verify_entries ::
  "('c \<Rightarrow> string) \<Rightarrow> (string \<Rightarrow> error option) \<Rightarrow> (message \<Rightarrow> error option) \<Rightarrow> 'c fs \<Rightarrow>
   string \<Rightarrow> dict \<Rightarrow> error + bool" where
  "verify_entries sha256_hex stat_error print_error fs backup_root [] = Inr True"
| "verify_entries sha256_hex stat_error print_error fs backup_root
       ((file_path, expected_checksum) # rest) =
     (let full_path = path_join backup_root file_path
      in case path_exists stat_error fs full_path of
           Inl e \<Rightarrow> Inl e
         | Inr there \<Rightarrow>
             if \<not> there then
               (case print_error (MissingFile file_path) of
                  Some e \<Rightarrow> Inl e
                | None \<Rightarrow> Inr False)
             else (case calculate_file_checksum sha256_hex fs full_path of
                     Inl e \<Rightarrow> Inl e
                   | Inr actual_checksum \<Rightarrow>
                       if PStr actual_checksum \<noteq> expected_checksum then
                         (case print_error
                                 (ChecksumMismatch file_path expected_checksum actual_checksum) of
                            Some e \<Rightarrow> Inl e
                          | None \<Rightarrow> Inr False)
                       else verify_entries sha256_hex stat_error print_error fs backup_root rest))"

definition verify_checksums ::
  "('c \<Rightarrow> string) \<Rightarrow> (string \<Rightarrow> error option) \<Rightarrow> (message \<Rightarrow> error option) \<Rightarrow> 'c fs \<Rightarrow>
   string \<Rightarrow> BackupMetadata \<Rightarrow> error + bool" where
  "verify_checksums sha256_hex stat_error print_error fs backup_root metadata =
     (case checksums metadata of
        PDict entries \<Rightarrow> verify_entries sha256_hex stat_error print_error fs backup_root entries
      | _ \<Rightarrow> Inl AttributeError)"

text \<open>An entry of the checksum mapping verifies when \<open>exists()\<close> finds its file under the
  root and the checksum computed from the file is the recorded one.\<close>

definition entry_verifies ::
  "('c \<Rightarrow> string) \<Rightarrow> (string \<Rightarrow> error option) \<Rightarrow> 'c fs \<Rightarrow> string \<Rightarrow> string \<times> pyval \<Rightarrow> bool" where
  "entry_verifies h stat_error fs backup_root entry =
     (path_exists stat_error fs (path_join backup_root (fst entry)) = Inr True
      \<and> (\<exists>a. calculate_file_checksum h fs (path_join backup_root (fst entry)) = Inr a
              \<and> PStr a = snd entry))"

section \<open>Collecting configuration files: \<open>collectors/config_files.py\<close>\<close>

text \<open>
  \<open>ancestors p\<close> are the directories above \<open>p\<close>, outermost first (the root \<open>/\<close> is
  always there and is left out): \<open>a\<close> and \<open>a/b\<close> for \<open>a/b/c\<close>.
\<close>

fun ancestors_from :: "string \<Rightarrow> string \<Rightarrow> string list" where
  "ancestors_from acc [] = []"
| "ancestors_from acc (c # cs) =
     (if c = CHR ''/'' \<and> acc \<noteq> [] then acc # ancestors_from (acc @ [c]) cs
      else ancestors_from (acc @ [c]) cs)"

definition ancestors :: "string \<Rightarrow> string list" where
  "ancestors p = ancestors_from [] p"

text \<open>
  \<open>Path.mkdir(parents=True, exist_ok=True)\<close>: every missing directory on the way is
  created, an existing directory is left alone. It fails where the way is blocked by
  something that is not a directory, and where creating an entry fails
  (\<open>create_error q\<close> is the exception that the operating system raises when \<open>q\<close> is
  created, if any).
\<close>

fun mkdir_chain :: "(string \<Rightarrow> error option) \<Rightarrow> 'c fs \<Rightarrow> string \<Rightarrow> string list \<Rightarrow> error + 'c fs" where
  "mkdir_chain create_error fs target [] = Inr fs"
| "mkdir_chain create_error fs target (q # qs) =
     (case fs q of
        Some Directory \<Rightarrow> mkdir_chain create_error fs target qs
      | Some (RegFile _) \<Rightarrow> Inl (if q = target then FileExistsError else NotADirectoryError)
      | Some NoAccess \<Rightarrow> Inl PermissionError
      | None \<Rightarrow>
          (case create_error q of
             Some e \<Rightarrow> Inl e
           | None \<Rightarrow> mkdir_chain create_error (fs(q \<mapsto> Directory)) target qs))"

definition mkdir_parents :: "(string \<Rightarrow> error option) \<Rightarrow> 'c fs \<Rightarrow> string \<Rightarrow> error + 'c fs" where
  "mkdir_parents create_error fs p = mkdir_chain create_error fs p (ancestors p @ [p])"

text \<open>
  What \<open>collect\<close> sees of its surroundings: the file system, the exceptions of creating
  an entry, of \<open>stat()\<close> and of printing a message on the console, and \<open>Path.home()\<close> (a
  \<open>RuntimeError\<close> when the home directory cannot be determined).
\<close>

record 'c collect_env =
  env_fs :: "'c fs"
  env_create_error :: "string \<Rightarrow> error option"
  env_stat_error :: "string \<Rightarrow> error option"
  env_print_error :: "message \<Rightarrow> error option"
  env_home :: "error + string"

text \<open>The configuration directory: \<open>/home/<username>/.config\<close> for a non-empty
  \<open>username\<close>, \<open>Path.home() / ".config"\<close> otherwise.\<close>

definition config_dir_of :: "'c collect_env \<Rightarrow> string option \<Rightarrow> error + string" where
  "config_dir_of env username =
     (case username of
        Some u \<Rightarrow>
          if u \<noteq> [] then Inr (''/home/'' @ u @ ''/.config'')
          else (case env_home env of Inl e \<Rightarrow> Inl e | Inr h \<Rightarrow> Inr (path_join h ''.config''))
      | None \<Rightarrow> (case env_home env of Inl e \<Rightarrow> Inl e | Inr h \<Rightarrow> Inr (path_join h ''.config'')))"

definition empty_summary :: pyval where
  "empty_summary =
     PDict [(''total_files'', PInt 0), (''total_size_bytes'', PInt 0), (''skipped_files'', PInt 0)]"

text \<open>
  \<open>ConfigCollector.collect\<close>, with \<open>self.verbose\<close> as its first argument. The scan, the
  copy and the archive of an existing configuration directory (everything after the
  early return) are the parameter \<open>collect_tree\<close>, given the file system after
  \<open>mkdir\<close>, the output directory and the configuration directory. The function
  returns the summary and the file system it leaves.
\<close>

definition collect ::
  "('c fs \<Rightarrow> string \<Rightarrow> string \<Rightarrow> error + pyval \<times> 'c fs) \<Rightarrow> bool \<Rightarrow>
   'c collect_env \<Rightarrow> string \<Rightarrow> string option \<Rightarrow> error + pyval \<times> 'c fs" where
  "collect collect_tree verbose env output_dir username =
     (case mkdir_parents (env_create_error env) (env_fs env) output_dir of
        Inl e \<Rightarrow> Inl e
      | Inr fs' \<Rightarrow>
          (case config_dir_of env username of
             Inl e \<Rightarrow> Inl e
           | Inr config_dir \<Rightarrow>
               (case path_exists (env_stat_error env) fs' config_dir of
                  Inl e \<Rightarrow> Inl e
                | Inr there \<Rightarrow>
                    if \<not> there then
                      (if verbose then
                         (case env_print_error env (ConfigDirNotFound config_dir) of
                            Some e \<Rightarrow> Inl e
                          | None \<Rightarrow> Inr (empty_summary, fs'))
                       else Inr (empty_summary, fs'))
                    else collect_tree fs' output_dir config_dir)))"

section \<open>Local storage: \<open>storage/local.py\<close>\<close>




definition endswith :: "string \<Rightarrow> string \<Rightarrow> bool" where
  "endswith s suffix = (length suffix \<le> length s \<and> drop (length s - length suffix) s = suffix)"









section \<open>Exclude patterns: \<open>utils/exclude.py\<close>\<close>

subsection \<open>String methods\<close>

definition startswith :: "string \<Rightarrow> string \<Rightarrow> bool" where
  "startswith s p = (take (length p) s = p)"

definition strip :: "string \<Rightarrow> string" where
  "strip s = rev (dropWhile is_space (rev (dropWhile is_space s)))"

text \<open>\<open>s.replace(old, new)\<close>: the occurrences of \<open>old\<close> are found from left to right and
  do not overlap; an empty \<open>old\<close> matches before every character and at the end.\<close>

function replace :: "string \<Rightarrow> string \<Rightarrow> string \<Rightarrow> string" where
  "replace old new [] = (if old = [] then new else [])"
| "replace old new (c # cs) =
     (if old = [] then new @ concat (map (\<lambda>x. x # new) (c # cs))
      else if take (length old) (c # cs) = old
           then new @ replace old new (drop (length old) (c # cs))
           else c # replace old new cs)"
  by pat_completeness auto
termination
  by (relation "measure (\<lambda>(old, new, s). length s)") auto

subsection \<open>\<open>_glob_to_regex\<close>\<close>

definition glob_to_regex :: "string \<Rightarrow> string" where
  "glob_to_regex pattern =
     (let p1 = replace ''**/'' ''(?:.*/)?'' pattern;
          p2 = replace ''**'' ''.*'' p1;
          p3 = replace ''*'' ''[^/]*'' p2;
          p4 = replace ''?'' ''[^/]'' p3;
          p5 = (if endswith p4 ''/'' then p4 @ ''.*'' else p4);
          p6 = (if startswith p5 ''/'' then ''^'' @ tl p5 else ''(?:^|.*/)'' @ p5)
      in if \<not> endswith p6 ''.*'' then p6 @ ''$'' else p6)"

subsection \<open>Regular expressions: the part of \<open>re\<close> that the patterns reach\<close>

text \<open>
  The syntax tree of a regular expression. The modelled fragment of Python's syntax
  has literal characters, \<open>.\<close>, \<open>^\<close>, \<open>$\<close>, the quantifiers \<open>*\<close>, \<open>+\<close>, \<open>?\<close> (greedy or
  lazy), groups \<open>(...)\<close> and \<open>(?:...)\<close>, alternation, and character sets \<open>[...]\<close> and
  \<open>[^...]\<close> of characters and ranges.
\<close>

datatype set_item = SChar char | SRange char char

datatype regex =
    Epsilon | Lit char | Dot | Bol | Eol | CSet bool "set_item list"
  | Seq regex regex | Alt regex regex
  | Star regex | Plus regex | Opt regex | Group regex

text \<open>
  The parser reads the pattern one character at a time, as \<open>sre_parse\<close> does. Its
  state is a mode and a stack of open groups, innermost first; for each open group,
  and for the pattern itself at the bottom, the finished alternatives and the items
  of the alternative being read.
\<close>

datatype pmode =
    Normal
  | AfterQuant
  | AfterOpen
  | AfterOpenQ
  | SetBegin
  | SetItem bool "set_item list"
  | SetAfterItem bool "set_item list" char
  | SetRange bool "set_item list" char

type_synonym frame = "regex list \<times> regex list"

type_synonym pstate = "pmode \<times> frame list"

definition seq_of :: "regex list \<Rightarrow> regex" where
  "seq_of rs = foldr Seq rs Epsilon"

definition frame_regex :: "frame \<Rightarrow> regex" where
  "frame_regex f = foldr Alt (fst f) (seq_of (snd f))"

fun is_repeat :: "regex \<Rightarrow> bool" where
  "is_repeat (Star _) = True"
| "is_repeat (Plus _) = True"
| "is_repeat (Opt _) = True"
| "is_repeat _ = False"

fun is_at :: "regex \<Rightarrow> bool" where
  "is_at Bol = True"
| "is_at Eol = True"
| "is_at _ = False"

fun add_item :: "regex \<Rightarrow> frame list \<Rightarrow> frame list" where
  "add_item r [] = [([], [r])]"
| "add_item r ((alts, items) # rest) = (alts, items @ [r]) # rest"

text \<open>A quantifier applies to the last item: \<open>nothing to repeat\<close> when there is none or
  it is \<open>^\<close> or \<open>$\<close>, \<open>multiple repeat\<close> when it is quantified already.\<close>

fun quantify :: "(regex \<Rightarrow> regex) \<Rightarrow> frame list \<Rightarrow> error + pstate" where
  "quantify q [] = Inl RegexError"
| "quantify q ((alts, items) # rest) =
     (if items = [] then Inl RegexError
      else if is_at (last items) \<or> is_repeat (last items) then Inl RegexError
      else Inr (AfterQuant, (alts, butlast items @ [q (last items)]) # rest))"

fun close_group :: "frame list \<Rightarrow> error + pstate" where
  "close_group (f # (alts, items) # rest) = Inr (Normal, (alts, items @ [Group (frame_regex f)]) # rest)"
| "close_group _ = Inl RegexError"

fun next_alternative :: "frame list \<Rightarrow> error + pstate" where
  "next_alternative [] = Inl RegexError"
| "next_alternative ((alts, items) # rest) = Inr (Normal, (alts @ [seq_of items], []) # rest)"

definition normal_step :: "frame list \<Rightarrow> char \<Rightarrow> error + pstate" where
  "normal_step stack c =
     (if c = CHR ''('' then Inr (AfterOpen, stack)
      else if c = CHR '')'' then close_group stack
      else if c = CHR ''|'' then next_alternative stack
      else if c = CHR ''*'' then quantify Star stack
      else if c = CHR ''+'' then quantify Plus stack
      else if c = CHR ''?'' then quantify Opt stack
      else if c = CHR ''{'' \<or> c = CHR 0x5C then Inl NotModelled
      else if c = CHR ''['' then Inr (SetBegin, stack)
      else if c = CHR ''.'' then Inr (Normal, add_item Dot stack)
      else if c = CHR ''^'' then Inr (Normal, add_item Bol stack)
      else if c = CHR ''$'' then Inr (Normal, add_item Eol stack)
      else Inr (Normal, add_item (Lit c) stack))"

text \<open>Inside a set: a \<open>]\<close> closes the set unless it is its first member.\<close>

definition set_item_step :: "bool \<Rightarrow> set_item list \<Rightarrow> frame list \<Rightarrow> char \<Rightarrow> error + pstate" where
  "set_item_step neg members stack c =
     (if c = CHR '']'' \<and> members \<noteq> [] then Inr (Normal, add_item (CSet neg members) stack)
      else if c = CHR 0x5C then Inl NotModelled
      else Inr (SetAfterItem neg members c, stack))"

fun parse_step :: "pstate \<Rightarrow> char \<Rightarrow> error + pstate" where
  "parse_step (Normal, stack) c = normal_step stack c"
| "parse_step (AfterQuant, stack) c =
     (if c = CHR ''?'' then Inr (Normal, stack)
      else if c = CHR ''+'' then Inl NotModelled
      else normal_step stack c)"
| "parse_step (AfterOpen, stack) c =
     (if c = CHR ''?'' then Inr (AfterOpenQ, stack)
      else normal_step (([], []) # stack) c)"
| "parse_step (AfterOpenQ, stack) c =
     (if c = CHR '':'' then Inr (Normal, ([], []) # stack) else Inl NotModelled)"
| "parse_step (SetBegin, stack) c =
     (if c = CHR ''^'' then Inr (SetItem True [], stack)
      else set_item_step False [] stack c)"
| "parse_step (SetItem neg members, stack) c = set_item_step neg members stack c"
| "parse_step (SetAfterItem neg members c1, stack) c =
     (if c = CHR ''-'' then Inr (SetRange neg members c1, stack)
      else set_item_step neg (members @ [SChar c1]) stack c)"
| "parse_step (SetRange neg members c1, stack) c =
     (if c = CHR '']'' then Inr (Normal, add_item (CSet neg (members @ [SChar c1, SChar CHR ''-''])) stack)
      else if c = CHR 0x5C then Inl NotModelled
      else if c < c1 then Inl RegexError
      else Inr (SetItem neg (members @ [SRange c1 c]), stack))"

fun parse_chars :: "pstate \<Rightarrow> string \<Rightarrow> error + pstate" where
  "parse_chars st [] = Inr st"
| "parse_chars st (c # cs) =
     (case parse_step st c of
        Inl e \<Rightarrow> Inl e
      | Inr st' \<Rightarrow> parse_chars st' cs)"

fun finish :: "pstate \<Rightarrow> error + regex" where
  "finish (Normal, [f]) = Inr (frame_regex f)"
| "finish (AfterQuant, [f]) = Inr (frame_regex f)"
| "finish _ = Inl RegexError"

text \<open>\<open>re.compile\<close>: the syntax tree, \<open>re.error\<close> for a malformed pattern, and
  \<open>NotModelled\<close> for a pattern outside the fragment (an escape, a counted repetition,
  a possessive quantifier, an extension group).\<close>

definition re_compile :: "string \<Rightarrow> error + regex" where
  "re_compile s =
     (case parse_chars (Normal, [([], [])]) s of
        Inl e \<Rightarrow> Inl e
      | Inr st \<Rightarrow> finish st)"

subsection \<open>Matching\<close>

text \<open>
  A position in the subject is the rest of the string together with the fact that
  nothing has been consumed from the very start. \<open>rmatch r pos\<close> lists the positions
  at which a match of \<open>r\<close> that starts at \<open>pos\<close> can end. Without flags, \<open>.\<close> is any
  character but a newline, \<open>^\<close> holds at the start of the string, and \<open>$\<close> at its
  end and before a newline that ends it.
\<close>

type_synonym pos = "bool \<times> string"

definition in_set :: "char \<Rightarrow> set_item list \<Rightarrow> bool" where
  "in_set c members =
     list_ex (\<lambda>m. case m of SChar x \<Rightarrow> c = x | SRange lo hi \<Rightarrow> lo \<le> c \<and> c \<le> hi) members"

definition eat :: "(char \<Rightarrow> bool) \<Rightarrow> pos \<Rightarrow> pos list" where
  "eat ok p = (case snd p of [] \<Rightarrow> [] | x # xs \<Rightarrow> if ok x then [(False, xs)] else [])"

text \<open>Repetition: the iterations that consume something are the only ones that reach
  a new position, and there are at most as many as characters left (the fuel).\<close>

fun star_iter :: "(pos \<Rightarrow> pos list) \<Rightarrow> string \<Rightarrow> pos \<Rightarrow> pos list" where
  "star_iter f [] p = [p]"
| "star_iter f (_ # fuel) p =
     remdups (p # concat (map (star_iter f fuel)
                            (filter (\<lambda>q. length (snd q) < length (snd p)) (f p))))"

fun rmatch :: "regex \<Rightarrow> pos \<Rightarrow> pos list" where
  "rmatch Epsilon p = [p]"
| "rmatch (Lit c) p = eat (\<lambda>x. x = c) p"
| "rmatch Dot p = eat (\<lambda>x. x \<noteq> CHR 0x0A) p"
| "rmatch (CSet neg members) p = eat (\<lambda>x. in_set x members \<noteq> neg) p"
| "rmatch Bol p = (if fst p then [p] else [])"
| "rmatch Eol p = (if snd p = [] \<or> snd p = [CHR 0x0A] then [p] else [])"
| "rmatch (Seq r1 r2) p = remdups (concat (map (rmatch r2) (rmatch r1 p)))"
| "rmatch (Alt r1 r2) p = remdups (rmatch r1 p @ rmatch r2 p)"
| "rmatch (Star r) p = star_iter (rmatch r) (snd p) p"
| "rmatch (Plus r) p = remdups (concat (map (\<lambda>q. star_iter (rmatch r) (snd q) q) (rmatch r p)))"
| "rmatch (Opt r) p = remdups (p # rmatch r p)"
| "rmatch (Group r) p = rmatch r p"

text \<open>\<open>pattern.search(s)\<close>: a match may start at any position.\<close>

fun search_from :: "regex \<Rightarrow> bool \<Rightarrow> string \<Rightarrow> bool" where
  "search_from r b [] = (rmatch r (b, []) \<noteq> [])"
| "search_from r b (x # xs) = (rmatch r (b, x # xs) \<noteq> [] \<or> search_from r False xs)"

definition re_search :: "regex \<Rightarrow> string \<Rightarrow> bool" where
  "re_search r s = search_from r True s"

subsection \<open>\<open>ExcludePatternMatcher\<close>\<close>

text \<open>
  The matcher is its list \<open>patterns\<close> of rules, each a negation flag and a compiled
  pattern. The functions take the regular-expression engine as parameters:
  \<open>compile\<close> is \<open>re.compile\<close> and \<open>search\<close> says whether \<open>pattern.search(path)\<close> finds a
  match.
\<close>

definition add_pattern ::
  "(string \<Rightarrow> error + 'r) \<Rightarrow> (bool \<times> 'r) list \<Rightarrow> string \<Rightarrow> error + (bool \<times> 'r) list" where
  "add_pattern compile patterns pattern =
     (let pattern = strip pattern in
      if pattern = [] \<or> startswith pattern ''#'' then Inr patterns
      else
        let is_negation = startswith pattern ''!'';
            pattern = (if is_negation then strip (tl pattern) else pattern)
        in case compile (glob_to_regex pattern) of
             Inl e \<Rightarrow> Inl e
           | Inr compiled_pattern \<Rightarrow> Inr (patterns @ [(is_negation, compiled_pattern)]))"

fun add_patterns ::
  "(string \<Rightarrow> error + 'r) \<Rightarrow> (bool \<times> 'r) list \<Rightarrow> string list \<Rightarrow> error + (bool \<times> 'r) list" where
  "add_patterns compile patterns [] = Inr patterns"
| "add_patterns compile patterns (p # ps) =
     (case add_pattern compile patterns p of
        Inl e \<Rightarrow> Inl e
      | Inr patterns' \<Rightarrow> add_patterns compile patterns' ps)"

definition ExcludePatternMatcher_init ::
  "(string \<Rightarrow> error + 'r) \<Rightarrow> string list option \<Rightarrow> error + (bool \<times> 'r) list" where
  "ExcludePatternMatcher_init compile patterns =
     (case patterns of
        None \<Rightarrow> Inr []
      | Some ps \<Rightarrow> add_patterns compile [] ps)"

definition normalize_path :: "string \<Rightarrow> string" where
  "normalize_path path = (if startswith path ''./'' then drop 2 path else path)"

text \<open>The loop of \<open>should_exclude\<close>, started with \<open>excluded\<close>.\<close>

fun exclude_loop :: "('r \<Rightarrow> string \<Rightarrow> bool) \<Rightarrow> bool \<Rightarrow> (bool \<times> 'r) list \<Rightarrow> string \<Rightarrow> bool" where
  "exclude_loop search excluded [] path = excluded"
| "exclude_loop search excluded ((is_negation, pattern) # rest) path =
     exclude_loop search (if search pattern path then \<not> is_negation else excluded) rest path"

definition should_exclude :: "('r \<Rightarrow> string \<Rightarrow> bool) \<Rightarrow> (bool \<times> 'r) list \<Rightarrow> string \<Rightarrow> bool" where
  "should_exclude search patterns path = exclude_loop search False patterns (normalize_path path)"

section \<open>Properties of the permission subsystem\<close>

text \<open>
  C6: every record that \<open>capture_permissions\<close> returns satisfies
  \<open>is_symlink \<Longrightarrow> symlink_target\<close> is present; and for a symlink whose target cannot be
  read (\<open>os.readlink\<close> raises an \<open>OSError\<close>) the capture still returns a record, with
  \<open>is_symlink\<close> false.
\<close>

theorem capture_permissions_symlink_invariant:
  "(capture_permissions os p = Inr md \<longrightarrow>
      (truthy (is_symlink md) \<longrightarrow> symlink_target md \<noteq> PNone))
   \<and> (os_stat os p = Inr st \<and> os_islink os p \<and> os_readlink os p = Inl e \<and> is_OSError e \<longrightarrow>
      (\<exists>md'. capture_permissions os p = Inr md' \<and> is_symlink md' = PBool False))"
  by (auto simp: capture_permissions_def make_FileMetadata_def
           split: sum.splits if_splits)

theorem capture_permissions_symlink_invariant_witness:
  "capture_permissions
      \<lparr> os_stat = (\<lambda>p. Inr \<lparr> st_mode = 41471, st_uid = 1000, st_gid = 1000,
                           st_atime = 1, st_mtime = 2, st_size = 7 \<rparr>),
        os_islink = (\<lambda>p. True),
        os_readlink = (\<lambda>p. if p = ''good'' then Inr ''target'' else Inl PermissionError) \<rparr>
      ''good''
    = Inr (make_FileMetadata ''good'' \<lparr> st_mode = 41471, st_uid = 1000, st_gid = 1000,
                           st_atime = 1, st_mtime = 2, st_size = 7 \<rparr> True (PStr ''target''))
   \<and> symlink_target (make_FileMetadata ''good'' \<lparr> st_mode = 41471, st_uid = 1000, st_gid = 1000,
                           st_atime = 1, st_mtime = 2, st_size = 7 \<rparr> True (PStr ''target'')) \<noteq> PNone
   \<and> (\<exists>md'. capture_permissions
      \<lparr> os_stat = (\<lambda>p. Inr \<lparr> st_mode = 41471, st_uid = 1000, st_gid = 1000,
                           st_atime = 1, st_mtime = 2, st_size = 7 \<rparr>),
        os_islink = (\<lambda>p. True),
        os_readlink = (\<lambda>p. if p = ''good'' then Inr ''target'' else Inl PermissionError) \<rparr>
      ''bad'' = Inr md' \<and> is_symlink md' = PBool False)"
  using capture_permissions_symlink_invariant
    [of "\<lparr> os_stat = (\<lambda>p. Inr \<lparr> st_mode = 41471, st_uid = 1000, st_gid = 1000,
                           st_atime = 1, st_mtime = 2, st_size = 7 \<rparr>),
        os_islink = (\<lambda>p. True),
        os_readlink = (\<lambda>p. if p = ''good'' then Inr ''target'' else Inl PermissionError) \<rparr>"
        "''bad''" _
        "\<lparr> st_mode = 41471, st_uid = 1000, st_gid = 1000,
                           st_atime = 1, st_mtime = 2, st_size = 7 \<rparr>" PermissionError]
  by (simp add: capture_permissions_def make_FileMetadata_def)

text \<open>
  C7, as the code has it. With \<open>c1\<close>, \<open>c2\<close>, \<open>c3\<close> the calls of \<open>chown\<close>, \<open>chmod\<close> and
  \<open>utime\<close>:
  \<^item> when every failure of \<open>chown\<close> and \<open>chmod\<close> is a \<open>PermissionError\<close> and every failure
    of \<open>utime\<close> an \<open>OSError\<close>, all steps are attempted in order and nothing propagates;
  \<^item> \<open>chmod\<close> is attempted only when \<open>is_symlink\<close> is false;
  \<^item> an exception of \<open>chown\<close> that is no \<open>PermissionError\<close> propagates, and neither
    \<open>chmod\<close> nor \<open>utime\<close> is attempted;
  \<^item> after a \<open>chown\<close> that succeeded or raised a \<open>PermissionError\<close>, an exception of
    \<open>chmod\<close> that is no \<open>PermissionError\<close> propagates, and \<open>utime\<close> is not attempted;
  \<^item> after a \<open>chown\<close> and a \<open>chmod\<close> (if any) that succeeded or raised a
    \<open>PermissionError\<close>, \<open>utime\<close> is attempted, and only an exception of it that is no
    \<open>OSError\<close> propagates.
\<close>

theorem restore_permissions_best_effort:
  "((\<forall>h c e. w h c = Some e \<longrightarrow> is_PermissionError e \<or> (is_Utime c \<and> is_OSError e)) \<longrightarrow>
      restore_permissions w p md =
        ([Chown p (fm_uid md) (fm_gid md)]
           @ (if truthy (is_symlink md) then [] else [Chmod p (fm_mode md)])
           @ [Utime p (fm_atime md) (fm_mtime md)],
         None))
   \<and> (\<forall>c \<in> set (fst (restore_permissions w p md)). is_Chmod c \<longrightarrow> \<not> truthy (is_symlink md))
   \<and> (\<forall>e. w [] (Chown p (fm_uid md) (fm_gid md)) = Some e \<and> \<not> is_PermissionError e \<longrightarrow>
          restore_permissions w p md = ([Chown p (fm_uid md) (fm_gid md)], Some e))
   \<and> (\<forall>e. (\<forall>e'. w [] (Chown p (fm_uid md) (fm_gid md)) = Some e' \<longrightarrow> is_PermissionError e')
          \<and> \<not> truthy (is_symlink md)
          \<and> w [Chown p (fm_uid md) (fm_gid md)] (Chmod p (fm_mode md)) = Some e
          \<and> \<not> is_PermissionError e \<longrightarrow>
          restore_permissions w p md =
            ([Chown p (fm_uid md) (fm_gid md), Chmod p (fm_mode md)], Some e))
   \<and> ((\<forall>e'. w [] (Chown p (fm_uid md) (fm_gid md)) = Some e' \<longrightarrow> is_PermissionError e')
        \<and> (truthy (is_symlink md)
             \<or> (\<forall>e'. w [Chown p (fm_uid md) (fm_gid md)] (Chmod p (fm_mode md)) = Some e' \<longrightarrow>
                       is_PermissionError e')) \<longrightarrow>
        restore_permissions w p md =
          ([Chown p (fm_uid md) (fm_gid md)]
             @ (if truthy (is_symlink md) then [] else [Chmod p (fm_mode md)])
             @ [Utime p (fm_atime md) (fm_mtime md)],
           case w ([Chown p (fm_uid md) (fm_gid md)]
                     @ (if truthy (is_symlink md) then [] else [Chmod p (fm_mode md)]))
                  (Utime p (fm_atime md) (fm_mtime md)) of
             None \<Rightarrow> None
           | Some e \<Rightarrow> if is_OSError e then None else Some e))"
proof (intro conjI impI allI)
  assume w: "\<forall>h c e. w h c = Some e \<longrightarrow> is_PermissionError e \<or> (is_Utime c \<and> is_OSError e)"
  have chown: "try_call w is_PermissionError [] (Chown p (fm_uid md) (fm_gid md))
                 = ([Chown p (fm_uid md) (fm_gid md)], None)"
    using w by (fastforce simp: try_call_def split: option.splits)
  have chmod: "try_call w is_PermissionError t (Chmod p (fm_mode md)) = (t @ [Chmod p (fm_mode md)], None)" for t
    using w by (fastforce simp: try_call_def split: option.splits)
  have utime: "try_call w is_OSError t (Utime p (fm_atime md) (fm_mtime md))
                 = (t @ [Utime p (fm_atime md) (fm_mtime md)], None)" for t
  proof -
    have "is_OSError e" if "w t (Utime p (fm_atime md) (fm_mtime md)) = Some e" for e
      using w that by (cases e) fastforce+
    then show ?thesis by (auto simp: try_call_def split: option.splits)
  qed
  show "restore_permissions w p md =
        ([Chown p (fm_uid md) (fm_gid md)]
           @ (if truthy (is_symlink md) then [] else [Chmod p (fm_mode md)])
           @ [Utime p (fm_atime md) (fm_mtime md)], None)"
    by (simp add: restore_permissions_def chown chmod utime)
next
  show "\<forall>c \<in> set (fst (restore_permissions w p md)). is_Chmod c \<longrightarrow> \<not> truthy (is_symlink md)"
    by (auto simp: restore_permissions_def try_call_def split: option.splits prod.splits if_splits)
next
  fix e
  assume "w [] (Chown p (fm_uid md) (fm_gid md)) = Some e \<and> \<not> is_PermissionError e"
  then show "restore_permissions w p md = ([Chown p (fm_uid md) (fm_gid md)], Some e)"
    by (simp add: restore_permissions_def try_call_def)
next
  fix e
  assume h: "(\<forall>e'. w [] (Chown p (fm_uid md) (fm_gid md)) = Some e' \<longrightarrow> is_PermissionError e')
          \<and> \<not> truthy (is_symlink md)
          \<and> w [Chown p (fm_uid md) (fm_gid md)] (Chmod p (fm_mode md)) = Some e
          \<and> \<not> is_PermissionError e"
  then have chown: "try_call w is_PermissionError [] (Chown p (fm_uid md) (fm_gid md))
                 = ([Chown p (fm_uid md) (fm_gid md)], None)"
    by (auto simp: try_call_def split: option.splits)
  from h show "restore_permissions w p md =
            ([Chown p (fm_uid md) (fm_gid md), Chmod p (fm_mode md)], Some e)"
    by (simp add: restore_permissions_def chown) (simp add: try_call_def)
next
  assume h: "(\<forall>e'. w [] (Chown p (fm_uid md) (fm_gid md)) = Some e' \<longrightarrow> is_PermissionError e')
        \<and> (truthy (is_symlink md)
             \<or> (\<forall>e'. w [Chown p (fm_uid md) (fm_gid md)] (Chmod p (fm_mode md)) = Some e' \<longrightarrow>
                       is_PermissionError e'))"
  then have chown: "try_call w is_PermissionError [] (Chown p (fm_uid md) (fm_gid md))
                 = ([Chown p (fm_uid md) (fm_gid md)], None)"
    by (auto simp: try_call_def split: option.splits)
  have chmod: "\<not> truthy (is_symlink md) \<Longrightarrow>
      try_call w is_PermissionError [Chown p (fm_uid md) (fm_gid md)] (Chmod p (fm_mode md))
        = ([Chown p (fm_uid md) (fm_gid md), Chmod p (fm_mode md)], None)"
    using h by (auto simp: try_call_def split: option.splits)
  show "restore_permissions w p md =
          ([Chown p (fm_uid md) (fm_gid md)]
             @ (if truthy (is_symlink md) then [] else [Chmod p (fm_mode md)])
             @ [Utime p (fm_atime md) (fm_mtime md)],
           case w ([Chown p (fm_uid md) (fm_gid md)]
                     @ (if truthy (is_symlink md) then [] else [Chmod p (fm_mode md)]))
                  (Utime p (fm_atime md) (fm_mtime md)) of
             None \<Rightarrow> None
           | Some e \<Rightarrow> if is_OSError e then None else Some e)"
    by (cases "truthy (is_symlink md)")
       (simp_all add: restore_permissions_def chown chmod, simp_all add: try_call_def)
qed

text \<open>Three worlds. In the first every call fails, \<open>chown\<close> and \<open>chmod\<close> for lack of
  privileges: all three calls are made and nothing is raised. In the second \<open>chown\<close>
  finds no file, in the third \<open>chmod\<close> meets an I/O error after a \<open>chown\<close> without
  privileges: the exception propagates and the later calls are not made.\<close>

theorem restore_permissions_best_effort_witness:
  "restore_permissions
      (\<lambda>h c. if is_Utime c then Some OSError else Some PermissionError) ''f''
      \<lparr> fm_path = PStr ''f'', fm_mode = PInt 420, fm_uid = PInt 0, fm_gid = PInt 0,
        fm_atime = PFloat 1, fm_mtime = PFloat 2, fm_size = PInt 3,
        is_symlink = PBool False, symlink_target = PNone \<rparr>
    = ([Chown ''f'' (PInt 0) (PInt 0), Chmod ''f'' (PInt 420), Utime ''f'' (PFloat 1) (PFloat 2)], None)
   \<and> restore_permissions
      (\<lambda>h c. Some FileNotFoundError) ''f''
      \<lparr> fm_path = PStr ''f'', fm_mode = PInt 420, fm_uid = PInt 0, fm_gid = PInt 0,
        fm_atime = PFloat 1, fm_mtime = PFloat 2, fm_size = PInt 3,
        is_symlink = PBool False, symlink_target = PNone \<rparr>
    = ([Chown ''f'' (PInt 0) (PInt 0)], Some FileNotFoundError)
   \<and> restore_permissions
      (\<lambda>h c. if is_Chmod c then Some OSError else Some PermissionError) ''f''
      \<lparr> fm_path = PStr ''f'', fm_mode = PInt 420, fm_uid = PInt 0, fm_gid = PInt 0,
        fm_atime = PFloat 1, fm_mtime = PFloat 2, fm_size = PInt 3,
        is_symlink = PBool False, symlink_target = PNone \<rparr>
    = ([Chown ''f'' (PInt 0) (PInt 0), Chmod ''f'' (PInt 420)], Some OSError)"
proof -
  let ?md = "\<lparr> fm_path = PStr ''f'', fm_mode = PInt 420, fm_uid = PInt 0, fm_gid = PInt 0,
        fm_atime = PFloat 1, fm_mtime = PFloat 2, fm_size = PInt 3,
        is_symlink = PBool False, symlink_target = PNone \<rparr>"
  have 1: "restore_permissions (\<lambda>h c. if is_Utime c then Some OSError else Some PermissionError) ''f'' ?md
    = ([Chown ''f'' (PInt 0) (PInt 0), Chmod ''f'' (PInt 420), Utime ''f'' (PFloat 1) (PFloat 2)], None)"
    using restore_permissions_best_effort
      [of "\<lambda>h c. if is_Utime c then Some OSError else Some PermissionError" "''f''" ?md]
    by (simp split: if_splits)
  have 2: "restore_permissions (\<lambda>h c. Some FileNotFoundError) ''f'' ?md
    = ([Chown ''f'' (PInt 0) (PInt 0)], Some FileNotFoundError)"
    using restore_permissions_best_effort [of "\<lambda>h c. Some FileNotFoundError" "''f''" ?md]
    by simp
  have 3: "restore_permissions (\<lambda>h c. if is_Chmod c then Some OSError else Some PermissionError) ''f'' ?md
    = ([Chown ''f'' (PInt 0) (PInt 0), Chmod ''f'' (PInt 420)], Some OSError)"
    using restore_permissions_best_effort
      [of "\<lambda>h c. if is_Chmod c then Some OSError else Some PermissionError" "''f''" ?md]
    by simp
  from 1 2 3 show ?thesis by simp
qed

text \<open>
  C7 as stated fails: on a read-only file system \<open>chown\<close> raises an \<open>OSError\<close> that is
  not a \<open>PermissionError\<close>; it propagates, and neither \<open>chmod\<close> nor \<open>utime\<close> is
  attempted.
\<close>

theorem restore_permissions_chown_oserror_counterexample:
  "restore_permissions
      (\<lambda>h c. case c of Chown _ _ _ \<Rightarrow> Some OSError | _ \<Rightarrow> None) ''f''
      \<lparr> fm_path = PStr ''f'', fm_mode = PInt 420, fm_uid = PInt 0, fm_gid = PInt 0,
        fm_atime = PFloat 1, fm_mtime = PFloat 2, fm_size = PInt 3,
        is_symlink = PBool False, symlink_target = PNone \<rparr>
    = ([Chown ''f'' (PInt 0) (PInt 0)], Some OSError)"
  by (simp add: restore_permissions_def try_call_def)

subsection \<open>The sidecar dictionary form\<close>

lemma digit_val_oct_digit: "digit_val (oct_digit d) = Some (d mod 8)"
proof -
  have "d mod 8 < 8" by simp
  then have "d mod 8 \<in> {0,1,2,3,4,5,6,7}" by auto
  then show ?thesis by (auto simp: oct_digit_def digit_val_def)
qed

lemma oct_digit_not_us: "oct_digit d \<noteq> CHR ''_''"
proof -
  have "d mod 8 < 8" by simp
  then have "d mod 8 \<in> {0,1,2,3,4,5,6,7}" by auto
  then show ?thesis by (auto simp: oct_digit_def)
qed

lemma scan_oct_digits:
  "scan_oct acc us any (oct_digits m @ rest)
     = scan_oct (acc * 8 ^ length (oct_digits m) + m) False True rest"
proof (induction m arbitrary: acc us any rest rule: oct_digits.induct)
  case (1 n)
  show ?case
  proof (cases "n < 8")
    case True
    then have "oct_digits n = [oct_digit n]" by (subst oct_digits.simps) simp
    then show ?thesis using True
      by (simp add: digit_val_oct_digit oct_digit_not_us)
  next
    case False
    have "scan_oct acc us any (oct_digits n @ rest)
            = scan_oct acc us any (oct_digits (n div 8) @ (oct_digit (n mod 8) # rest))"
      using False by (subst oct_digits.simps) simp
    also have "\<dots> = scan_oct (acc * 8 ^ length (oct_digits (n div 8)) + n div 8) False True
                        (oct_digit (n mod 8) # rest)"
      by (rule "1.IH"[OF False])
    also have "\<dots> = scan_oct ((acc * 8 ^ length (oct_digits (n div 8)) + n div 8) * 8 + n mod 8)
                        False True rest"
      by (simp add: digit_val_oct_digit oct_digit_not_us)
    also have "(acc * 8 ^ length (oct_digits (n div 8)) + n div 8) * 8 + n mod 8
                 = acc * 8 ^ length (oct_digits n) + n"
    proof -
      have "length (oct_digits n) = Suc (length (oct_digits (n div 8)))"
        using False by (subst oct_digits.simps) simp
      then show ?thesis by (simp add: algebra_simps)
    qed
    finally show ?thesis .
  qed
qed


lemma hd_oct_digits: "\<exists>d ds. oct_digits m = oct_digit d # ds"
proof (induction m rule: oct_digits.induct)
  case (1 n)
  show ?case
  proof (cases "n < 8")
    case True
    then have "oct_digits n = oct_digit n # []" by (subst oct_digits.simps) simp
    then show ?thesis by blast
  next
    case False
    from "1.IH"[OF False] obtain d ds where "oct_digits (n div 8) = oct_digit d # ds" by blast
    then have "oct_digits n = oct_digit d # (ds @ [oct_digit (n mod 8)])"
      using False by (subst oct_digits.simps) simp
    then show ?thesis by blast
  qed
qed

lemma py_int8_prefixed:
  assumes "c \<noteq> CHR ''_''" and "scan_oct 0 False False (c # cs) = Some (v, [])"
  shows "py_int8 (''0o'' @ c # cs) = Inr (int v)"
    and "py_int8 (''-0o'' @ c # cs) = Inr (- int v)"
  using assms by (simp_all add: py_int8_def strip_sign_def strip_prefix8_def is_int_space_def)

lemma py_int8_py_oct: "py_int8 (py_oct n) = Inr n"
proof -
  define m where "m = nat \<bar>n\<bar>"
  obtain d ds where ds: "oct_digits m = oct_digit d # ds" using hd_oct_digits by blast
  have scan: "scan_oct 0 False False (oct_digit d # ds) = Some (m, [])"
    using scan_oct_digits[of 0 False False m "[]"] by (simp add: ds)
  note pre = py_int8_prefixed[OF oct_digit_not_us scan]
  show ?thesis
  proof (cases "n < 0")
    case True
    then have "py_oct n = ''-0o'' @ oct_digit d # ds" 
      using ds by (simp add: py_oct_def m_def)
    then show ?thesis using pre(2) True by (simp add: m_def)
  next
    case False
    then have "py_oct n = ''0o'' @ oct_digit d # ds" 
      using ds by (simp add: py_oct_def m_def)
    then show ?thesis using pre(1) False by (simp add: m_def)
  qed
qed

text \<open>
  C8: for a \<open>FileMetadata\<close> record whose mode is the integer \<open>n\<close>, \<open>to_dict\<close> returns a
  dictionary whose entry \<open>mode\<close> is the string \<open>oct(n)\<close>, and \<open>from_dict\<close> of that
  dictionary is the record itself; and \<open>int(oct(n), 8) = n\<close>.
\<close>

theorem FileMetadata_dict_roundtrip:
  "fm_mode md = PInt n \<Longrightarrow>
     (\<exists>d. FileMetadata_to_dict md = Inr d
          \<and> map_of d ''mode'' = Some (PStr (py_oct n))
          \<and> FileMetadata_from_dict d = Inr md)
     \<and> py_int8 (py_oct n) = Inr n"
proof (intro conjI exI)
  assume mode: "fm_mode md = PInt n"
  let ?d = "[(''path'', fm_path md), (''mode'', PStr (py_oct n)), (''uid'', fm_uid md),
             (''gid'', fm_gid md), (''atime'', fm_atime md), (''mtime'', fm_mtime md),
             (''size'', fm_size md), (''is_symlink'', is_symlink md),
             (''symlink_target'', symlink_target md)]"
  show "FileMetadata_to_dict md = Inr ?d"
    by (simp add: FileMetadata_to_dict_def oct_of_def mode)
  show "map_of ?d ''mode'' = Some (PStr (py_oct n))"
    by simp
  have init: "FileMetadata_init (dict_set ?d ''mode'' (PInt n)) = Inr md"
    by (simp add: FileMetadata_init_def call_with_kwargs_def FileMetadata_params_def mode)
  show "FileMetadata_from_dict ?d = Inr md"
    using init by (simp add: FileMetadata_from_dict_def py_int8_py_oct)
  show "py_int8 (py_oct n) = Inr n"
    by (rule py_int8_py_oct)
qed

text \<open>A regular file of mode \<open>0o100644\<close>.\<close>

theorem FileMetadata_dict_roundtrip_witness:
  "(\<exists>d. FileMetadata_to_dict
           \<lparr> fm_path = PStr ''a/b'', fm_mode = PInt 33188, fm_uid = PInt 1000, fm_gid = PInt 100,
             fm_atime = PFloat 1, fm_mtime = PFloat 2, fm_size = PInt 12,
             is_symlink = PBool False, symlink_target = PNone \<rparr> = Inr d
        \<and> map_of d ''mode'' = Some (PStr ''0o100644'')
        \<and> FileMetadata_from_dict d =
           Inr \<lparr> fm_path = PStr ''a/b'', fm_mode = PInt 33188, fm_uid = PInt 1000, fm_gid = PInt 100,
             fm_atime = PFloat 1, fm_mtime = PFloat 2, fm_size = PInt 12,
             is_symlink = PBool False, symlink_target = PNone \<rparr>)
   \<and> py_oct 33188 = ''0o100644''
   \<and> py_int8 ''0o100644'' = Inr 33188"
proof -
  have oct: "py_oct 33188 = ''0o100644''"
    by (simp add: py_oct_def oct_digits.simps oct_digit_def)
  show ?thesis
    using FileMetadata_dict_roundtrip
      [of "\<lparr> fm_path = PStr ''a/b'', fm_mode = PInt 33188, fm_uid = PInt 1000, fm_gid = PInt 100,
             fm_atime = PFloat 1, fm_mtime = PFloat 2, fm_size = PInt 12,
             is_symlink = PBool False, symlink_target = PNone \<rparr>" 33188]
    by (simp add: oct)
qed

section \<open>Properties of the manifest\<close>

subsection \<open>Loading and saving the manifest\<close>

lemma bind_args_length: "bind_args kw ps = Inr vs \<Longrightarrow> length vs = length ps"
  by (induction ps arbitrary: vs) (auto split: option.splits sum.splits)

lemma bind_args_succeeds:
  "(\<exists>vs. bind_args kw ps = Inr vs) \<longleftrightarrow> set (required_params ps) \<subseteq> fst ` set kw"
proof (induction ps)
  case Nil
  show ?case by (simp add: required_params_def)
next
  case (Cons p ps)
  obtain n d where p: "p = (n, d)" by (cases p)
  have key: "map_of kw n = None \<longleftrightarrow> n \<notin> fst ` set kw"
    by (simp add: map_of_eq_None_iff)
  show ?case
  proof (cases "bind_args kw ps")
    case (Inl e)
    with Cons.IH show ?thesis
      by (auto simp: p required_params_def split: option.splits)
  next
    case (Inr vs)
    with Cons.IH have "set (required_params ps) \<subseteq> fst ` set kw" by blast
    then show ?thesis using Inr key
      by (cases d; cases "map_of kw n") (auto simp: p required_params_def)
  qed
qed

lemma BackupMetadata_init_succeeds:
  "(\<exists>m. BackupMetadata_init kw = Inr m) \<longleftrightarrow>
     set (map fst kw) \<subseteq> set (map fst BackupMetadata_params)
     \<and> set (required_params BackupMetadata_params) \<subseteq> set (map fst kw)"
proof (cases "list_ex (\<lambda>k. k \<notin> set (map fst BackupMetadata_params)) (map fst kw)")
  case True
  then have "call_with_kwargs BackupMetadata_params kw = Inl TypeError"
    by (simp add: call_with_kwargs_def)
  moreover from True have "\<not> set (map fst kw) \<subseteq> set (map fst BackupMetadata_params)"
    by (auto simp: list_ex_iff)
  ultimately show ?thesis by (simp add: BackupMetadata_init_def)
next
  case False
  then have sub: "set (map fst kw) \<subseteq> set (map fst BackupMetadata_params)"
    by (auto simp: list_ex_iff)
  have call: "call_with_kwargs BackupMetadata_params kw = bind_args kw BackupMetadata_params"
    using False by (simp add: call_with_kwargs_def)
  show ?thesis
  proof (cases "bind_args kw BackupMetadata_params")
    case (Inl e)
    then have "\<not> set (required_params BackupMetadata_params) \<subseteq> fst ` set kw"
      using bind_args_succeeds[of kw BackupMetadata_params] by simp
    then show ?thesis using Inl call by (simp add: BackupMetadata_init_def)
  next
    case (Inr vs)
    then have req: "set (required_params BackupMetadata_params) \<subseteq> fst ` set kw"
      using bind_args_succeeds[of kw BackupMetadata_params] by blast
    have "length vs = 11"
      using bind_args_length[OF Inr] by (simp add: BackupMetadata_params_def)
    then obtain a b c d e f g h i j k where "vs = [a, b, c, d, e, f, g, h, i, j, k]"
      by (auto simp: length_Suc_conv eval_nat_numeral)
    then show ?thesis using Inr call sub req by (simp add: BackupMetadata_init_def)
  qed
qed

lemma BackupMetadata_init_unknown:
  "\<not> set (map fst kw) \<subseteq> set (map fst BackupMetadata_params) \<Longrightarrow>
     BackupMetadata_init kw = Inl TypeError"
proof -
  assume "\<not> set (map fst kw) \<subseteq> set (map fst BackupMetadata_params)"
  then have "list_ex (\<lambda>k. k \<notin> set (map fst BackupMetadata_params)) (map fst kw)"
    by (auto simp: list_ex_iff)
  then have "call_with_kwargs BackupMetadata_params kw = Inl TypeError"
    by (simp add: call_with_kwargs_def)
  then show ?thesis by (simp add: BackupMetadata_init_def)
qed

lemma BackupMetadata_from_to_dict:
  "BackupMetadata_from_dict (BackupMetadata_to_dict m) = Inr m"
  by (simp add: BackupMetadata_from_dict_def BackupMetadata_to_dict_def BackupMetadata_init_def
        call_with_kwargs_def BackupMetadata_params_def)

text \<open>
  C5, as the code has it: a manifest file whose JSON object holds the seven required
  fields and no key other than the eleven fields of \<open>BackupMetadata\<close> loads; a file
  with any other key does not load, \<open>cls(**data)\<close> raises a \<open>TypeError\<close>.
\<close>

theorem load_metadata_fields:
  "read_file fs manifest_path = Inr text \<Longrightarrow> loads text = Inr (PDict kw) \<Longrightarrow>
     ((\<exists>m. load_metadata loads fs manifest_path = Inr m) \<longleftrightarrow>
        set (map fst kw) \<subseteq> set (map fst BackupMetadata_params)
        \<and> set (required_params BackupMetadata_params) \<subseteq> set (map fst kw))
     \<and> (\<not> set (map fst kw) \<subseteq> set (map fst BackupMetadata_params) \<longrightarrow>
          load_metadata loads fs manifest_path = Inl TypeError)"
proof -
  assume rd: "read_file fs manifest_path = Inr text" and ld: "loads text = Inr (PDict kw)"
  have "load_metadata loads fs manifest_path = BackupMetadata_init kw"
    by (simp add: load_metadata_def rd ld BackupMetadata_from_dict_def)
  then show ?thesis
    using BackupMetadata_init_succeeds[of kw] BackupMetadata_init_unknown[of kw] by simp
qed

theorem load_metadata_fields_witness:
  "(\<exists>m. load_metadata Inr
      (\<lambda>p. if p = ''manifest.json'' then
         Some (RegFile (PDict
           [(''backup_id'', PStr ''b1''), (''backup_type'', PStr ''full''),
            (''timestamp'', PStr ''t''), (''hostname'', PStr ''h''),
            (''kernel_version'', PStr ''6.1''), (''bread_version'', PStr ''0.1.0''),
            (''compression'', PStr ''zstd'')])) else None)
      ''manifest.json'' = Inr m)"
  using load_metadata_fields
    [of "\<lambda>p. if p = ''manifest.json'' then
         Some (RegFile (PDict
           [(''backup_id'', PStr ''b1''), (''backup_type'', PStr ''full''),
            (''timestamp'', PStr ''t''), (''hostname'', PStr ''h''),
            (''kernel_version'', PStr ''6.1''), (''bread_version'', PStr ''0.1.0''),
            (''compression'', PStr ''zstd'')])) else None"
        "''manifest.json''" _ Inr
        "[(''backup_id'', PStr ''b1''), (''backup_type'', PStr ''full''),
            (''timestamp'', PStr ''t''), (''hostname'', PStr ''h''),
            (''kernel_version'', PStr ''6.1''), (''bread_version'', PStr ''0.1.0''),
            (''compression'', PStr ''zstd'')]"]
  by (simp add: read_file_def BackupMetadata_params_def required_params_def)

text \<open>
  C5 as stated fails: a manifest with every expected field and one more, \<open>note\<close>, is
  refused with a \<open>TypeError\<close>.
\<close>

theorem load_metadata_extra_field_counterexample:
  "load_metadata Inr
      (\<lambda>p. if p = ''manifest.json'' then
         Some (RegFile (PDict
           [(''backup_id'', PStr ''b1''), (''backup_type'', PStr ''full''),
            (''parent_backup_id'', PNone),
            (''timestamp'', PStr ''t''), (''hostname'', PStr ''h''),
            (''kernel_version'', PStr ''6.1''), (''bread_version'', PStr ''0.1.0''),
            (''compression'', PStr ''zstd''), (''components'', PDict []),
            (''exclude_patterns'', PList []), (''checksums'', PDict []),
            (''note'', PStr ''x'')])) else None)
      ''manifest.json'' = Inl TypeError"
  by (simp add: load_metadata_def read_file_def BackupMetadata_from_dict_def
        BackupMetadata_init_def call_with_kwargs_def BackupMetadata_params_def)

lemma of_json_to_json:
  "json_native v \<Longrightarrow> of_json (to_json v) = v"
proof (induction v)
  case (PList xs)
  then have "map (\<lambda>x. of_json (to_json x)) xs = xs"
    by (intro map_idI) (auto simp: list_all_iff)
  then show ?case by (simp add: comp_def)
next
  case (PDict kvs)
  have "map (\<lambda>kv. case (case kv of (k, v) \<Rightarrow> (k, to_json v)) of (k, j) \<Rightarrow> (k, of_json j)) kvs = kvs"
  proof (intro map_idI)
    fix kv assume kv: "kv \<in> set kvs"
    obtain k v where [simp]: "kv = (k, v)" by (cases kv)
    from kv PDict.prems have "json_native v" by (auto simp: list_all_iff)
    moreover from kv have "v \<in> Basic_BNFs.snds kv" by simp
    ultimately have "of_json (to_json v) = v" using PDict.IH kv by blast
    then show "(case (case kv of (k, v) \<Rightarrow> (k, to_json v)) of (k, j) \<Rightarrow> (k, of_json j)) = kv"
      by simp
  qed
  then show ?case by (simp add: comp_def)
qed simp_all

text \<open>
  C4, as the code has it: a manifest whose field values are JSON-native (built from
  \<open>None\<close>, booleans, integers, floats, strings, lists and dictionaries with string
  keys, without a tuple), saved by \<open>save_metadata\<close> and loaded from the written file by
  \<open>load_metadata\<close>, is the manifest itself, field by field.
\<close>

theorem save_load_metadata_roundtrip:
  "json_native (BackupMetadata_to_dict m) \<Longrightarrow>
   save_metadata json_dump fs m output_path = Inr fs' \<Longrightarrow>
   load_metadata json_load fs' (path_join output_path MANIFEST_FILENAME) = Inr m"
proof -
  assume native: "json_native (BackupMetadata_to_dict m)"
    and save: "save_metadata json_dump fs m output_path = Inr fs'"
  let ?p = "path_join output_path MANIFEST_FILENAME"
  from save have "fs' = fs(?p \<mapsto> RegFile (json_dump (BackupMetadata_to_dict m)))"
    by (auto simp: save_metadata_def write_file_def Let_def split: option.splits node.splits)
  then have "read_file fs' ?p = Inr (json_dump (BackupMetadata_to_dict m))"
    by (simp add: read_file_def)
  moreover have "json_load (json_dump (BackupMetadata_to_dict m)) = Inr (BackupMetadata_to_dict m)"
    using of_json_to_json[OF native] by (simp add: json_load_def json_dump_def)
  ultimately show ?thesis
    by (simp add: load_metadata_def BackupMetadata_from_to_dict)
qed

text \<open>A manifest with empty \<open>components\<close> and \<open>checksums\<close>, saved into the directory
  \<open>out\<close> and loaded again.\<close>

theorem save_load_metadata_roundtrip_witness:
  "save_metadata json_dump (\<lambda>p. if p = ''out'' then Some Directory else None)
      \<lparr> backup_id = PStr ''b1'', backup_type = PStr ''full'', timestamp = PStr ''t'',
        hostname = PStr ''h'', kernel_version = PStr ''6.1'', bread_version = PStr ''0.1.0'',
        compression = PStr ''zstd'', parent_backup_id = PNone, components = PDict [],
        exclude_patterns = PList [PStr ''*.log''], checksums = PDict [] \<rparr> ''out''
     = Inr ((\<lambda>p. if p = ''out'' then Some Directory else None)
              (''out/manifest.json'' \<mapsto> RegFile (json_dump (BackupMetadata_to_dict
      \<lparr> backup_id = PStr ''b1'', backup_type = PStr ''full'', timestamp = PStr ''t'',
        hostname = PStr ''h'', kernel_version = PStr ''6.1'', bread_version = PStr ''0.1.0'',
        compression = PStr ''zstd'', parent_backup_id = PNone, components = PDict [],
        exclude_patterns = PList [PStr ''*.log''], checksums = PDict [] \<rparr>))))
   \<and> load_metadata json_load
       ((\<lambda>p. if p = ''out'' then Some Directory else None)
              (''out/manifest.json'' \<mapsto> RegFile (json_dump (BackupMetadata_to_dict
      \<lparr> backup_id = PStr ''b1'', backup_type = PStr ''full'', timestamp = PStr ''t'',
        hostname = PStr ''h'', kernel_version = PStr ''6.1'', bread_version = PStr ''0.1.0'',
        compression = PStr ''zstd'', parent_backup_id = PNone, components = PDict [],
        exclude_patterns = PList [PStr ''*.log''], checksums = PDict [] \<rparr>))))
       ''out/manifest.json''
     = Inr \<lparr> backup_id = PStr ''b1'', backup_type = PStr ''full'', timestamp = PStr ''t'',
        hostname = PStr ''h'', kernel_version = PStr ''6.1'', bread_version = PStr ''0.1.0'',
        compression = PStr ''zstd'', parent_backup_id = PNone, components = PDict [],
        exclude_patterns = PList [PStr ''*.log''], checksums = PDict [] \<rparr>"
proof -
  let ?m = "\<lparr> backup_id = PStr ''b1'', backup_type = PStr ''full'', timestamp = PStr ''t'',
        hostname = PStr ''h'', kernel_version = PStr ''6.1'', bread_version = PStr ''0.1.0'',
        compression = PStr ''zstd'', parent_backup_id = PNone, components = PDict [],
        exclude_patterns = PList [PStr ''*.log''], checksums = PDict [] \<rparr>"
  let ?fs = "\<lambda>p. if p = ''out'' then Some (Directory :: json_file node) else None"
  have native: "json_native (BackupMetadata_to_dict ?m)"
    by (simp add: BackupMetadata_to_dict_def)
  have save: "save_metadata json_dump ?fs ?m ''out''
                = Inr (?fs(''out/manifest.json'' \<mapsto> RegFile (json_dump (BackupMetadata_to_dict ?m))))"
    by (simp add: save_metadata_def write_file_def path_join_def MANIFEST_FILENAME_def)
  have "load_metadata json_load
          (?fs(''out/manifest.json'' \<mapsto> RegFile (json_dump (BackupMetadata_to_dict ?m))))
          (path_join ''out'' MANIFEST_FILENAME) = Inr ?m"
    by (rule save_load_metadata_roundtrip[OF native save])
  then show ?thesis using save
    by (simp add: path_join_def MANIFEST_FILENAME_def)
qed

text \<open>
  C4 as stated fails: the value of a component may hold a tuple (\<open>components\<close> is a
  \<open>dict[str, dict[str, Any]]\<close>); \<open>json.dump\<close> writes it as an array and \<open>json.load\<close>
  returns a list, so the loaded manifest differs from the saved one.
\<close>

theorem save_load_metadata_tuple_counterexample:
  "save_metadata json_dump (\<lambda>p. if p = ''out'' then Some Directory else None)
      \<lparr> backup_id = PStr ''b1'', backup_type = PStr ''full'', timestamp = PStr ''t'',
        hostname = PStr ''h'', kernel_version = PStr ''6.1'', bread_version = PStr ''0.1.0'',
        compression = PStr ''zstd'', parent_backup_id = PNone,
        components = PDict [(''packages'', PDict [(''helpers'', PTuple [PStr ''yay'', PStr ''paru''])])],
        exclude_patterns = PList [], checksums = PDict [] \<rparr> ''out''
     = Inr ((\<lambda>p. if p = ''out'' then Some Directory else None)
              (''out/manifest.json'' \<mapsto> RegFile (Document (JObject
                 [(''backup_id'', JString ''b1''), (''backup_type'', JString ''full''),
                  (''parent_backup_id'', JNull), (''timestamp'', JString ''t''),
                  (''hostname'', JString ''h''), (''kernel_version'', JString ''6.1''),
                  (''bread_version'', JString ''0.1.0''), (''compression'', JString ''zstd''),
                  (''components'', JObject [(''packages'', JObject [(''helpers'',
                      JArray [JString ''yay'', JString ''paru''])])]),
                  (''exclude_patterns'', JArray []), (''checksums'', JObject [])]))))
   \<and> load_metadata json_load
       ((\<lambda>p. if p = ''out'' then Some Directory else None)
              (''out/manifest.json'' \<mapsto> RegFile (Document (JObject
                 [(''backup_id'', JString ''b1''), (''backup_type'', JString ''full''),
                  (''parent_backup_id'', JNull), (''timestamp'', JString ''t''),
                  (''hostname'', JString ''h''), (''kernel_version'', JString ''6.1''),
                  (''bread_version'', JString ''0.1.0''), (''compression'', JString ''zstd''),
                  (''components'', JObject [(''packages'', JObject [(''helpers'',
                      JArray [JString ''yay'', JString ''paru''])])]),
                  (''exclude_patterns'', JArray []), (''checksums'', JObject [])]))))
       ''out/manifest.json''
     = Inr \<lparr> backup_id = PStr ''b1'', backup_type = PStr ''full'', timestamp = PStr ''t'',
        hostname = PStr ''h'', kernel_version = PStr ''6.1'', bread_version = PStr ''0.1.0'',
        compression = PStr ''zstd'', parent_backup_id = PNone,
        components = PDict [(''packages'', PDict [(''helpers'', PList [PStr ''yay'', PStr ''paru''])])],
        exclude_patterns = PList [], checksums = PDict [] \<rparr>
   \<and> \<lparr> backup_id = PStr ''b1'', backup_type = PStr ''full'', timestamp = PStr ''t'',
        hostname = PStr ''h'', kernel_version = PStr ''6.1'', bread_version = PStr ''0.1.0'',
        compression = PStr ''zstd'', parent_backup_id = PNone,
        components = PDict [(''packages'', PDict [(''helpers'', PList [PStr ''yay'', PStr ''paru''])])],
        exclude_patterns = PList [], checksums = PDict [] \<rparr>
     \<noteq> \<lparr> backup_id = PStr ''b1'', backup_type = PStr ''full'', timestamp = PStr ''t'',
        hostname = PStr ''h'', kernel_version = PStr ''6.1'', bread_version = PStr ''0.1.0'',
        compression = PStr ''zstd'', parent_backup_id = PNone,
        components = PDict [(''packages'', PDict [(''helpers'', PTuple [PStr ''yay'', PStr ''paru''])])],
        exclude_patterns = PList [], checksums = PDict [] \<rparr>"
  by (simp add: save_metadata_def write_file_def path_join_def MANIFEST_FILENAME_def
        json_dump_def BackupMetadata_to_dict_def load_metadata_def read_file_def json_load_def
        BackupMetadata_from_dict_def BackupMetadata_init_def call_with_kwargs_def
        BackupMetadata_params_def)

subsection \<open>Checksum verification\<close>

lemma verify_entries_Cons:
  "entry_verifies h se fs backup_root pe \<Longrightarrow>
     verify_entries h se pe' fs backup_root (pe # rest) = verify_entries h se pe' fs backup_root rest"
  by (cases pe) (auto simp: entry_verifies_def Let_def)

lemma verify_entries_True_iff:
  "verify_entries h se pe' fs backup_root entries = Inr True \<longleftrightarrow>
     list_all (entry_verifies h se fs backup_root) entries"
proof (induction entries)
  case Nil
  show ?case by simp
next
  case (Cons pe entries)
  obtain p e where pe: "pe = (p, e)" by (cases pe)
  show ?case
  proof (cases "entry_verifies h se fs backup_root pe")
    case True
    then show ?thesis using Cons.IH by (simp add: verify_entries_Cons)
  next
    case False
    then have "verify_entries h se pe' fs backup_root (pe # entries) \<noteq> Inr True"
      by (auto simp: pe entry_verifies_def Let_def split: sum.splits option.splits)
    with False show ?thesis by simp
  qed
qed

lemma verify_entries_prefix:
  "list_all (entry_verifies h se fs backup_root) pre \<Longrightarrow>
     verify_entries h se pe' fs backup_root (pre @ rest) = verify_entries h se pe' fs backup_root rest"
  by (induction pre) (simp_all add: verify_entries_Cons)

text \<open>
  C3, as the code has it. \<open>verify_checksums\<close> returns \<open>True\<close> exactly when every entry
  of the checksum mapping verifies: \<open>exists()\<close> returns \<open>True\<close> for its file under the
  root, and the checksum computed from the file is the recorded one. When the
  entries before it verify,
  \<^item> the first entry whose file \<open>exists()\<close> reports missing makes the result \<open>False\<close>,
    once the warning is printed;
  \<^item> the first entry whose computed checksum differs from the recorded one makes the
    result \<open>False\<close>, once the mismatch is printed;
  \<^item> the first entry for which \<open>exists()\<close> raises, or whose file is there and cannot
    be read, makes \<open>verify_checksums\<close> raise that exception;
  and an exception raised while printing propagates.
\<close>

theorem verify_checksums_correct:
  "checksums m = PDict entries \<Longrightarrow>
     (verify_checksums h se pr fs backup_root m = Inr True \<longleftrightarrow>
        list_all (entry_verifies h se fs backup_root) entries)
     \<and> (\<forall>pre p e post.
           entries = pre @ (p, e) # post
           \<and> list_all (entry_verifies h se fs backup_root) pre
           \<and> path_exists se fs (path_join backup_root p) = Inr False
           \<longrightarrow> verify_checksums h se pr fs backup_root m =
                 (case pr (MissingFile p) of None \<Rightarrow> Inr False | Some x \<Rightarrow> Inl x))
     \<and> (\<forall>pre p e post a.
           entries = pre @ (p, e) # post
           \<and> list_all (entry_verifies h se fs backup_root) pre
           \<and> path_exists se fs (path_join backup_root p) = Inr True
           \<and> calculate_file_checksum h fs (path_join backup_root p) = Inr a
           \<and> PStr a \<noteq> e
           \<longrightarrow> verify_checksums h se pr fs backup_root m =
                 (case pr (ChecksumMismatch p e a) of None \<Rightarrow> Inr False | Some x \<Rightarrow> Inl x))
     \<and> (\<forall>pre p e post err.
           entries = pre @ (p, e) # post
           \<and> list_all (entry_verifies h se fs backup_root) pre
           \<and> (path_exists se fs (path_join backup_root p) = Inl err
                \<or> (path_exists se fs (path_join backup_root p) = Inr True
                    \<and> calculate_file_checksum h fs (path_join backup_root p) = Inl err))
           \<longrightarrow> verify_checksums h se pr fs backup_root m = Inl err)"
proof (intro conjI allI impI)
  assume c: "checksums m = PDict entries"
  show "verify_checksums h se pr fs backup_root m = Inr True \<longleftrightarrow>
        list_all (entry_verifies h se fs backup_root) entries"
    by (simp add: verify_checksums_def c verify_entries_True_iff)
next
  fix pre p e post
  assume c: "checksums m = PDict entries"
    and h: "entries = pre @ (p, e) # post
           \<and> list_all (entry_verifies h se fs backup_root) pre
           \<and> path_exists se fs (path_join backup_root p) = Inr False"
  then have "verify_entries h se pr fs backup_root ((p, e) # post) =
               (case pr (MissingFile p) of None \<Rightarrow> Inr False | Some x \<Rightarrow> Inl x)"
    by (auto simp: Let_def split: option.splits)
  with h show "verify_checksums h se pr fs backup_root m =
                 (case pr (MissingFile p) of None \<Rightarrow> Inr False | Some x \<Rightarrow> Inl x)"
    by (simp add: verify_checksums_def c verify_entries_prefix)
next
  fix pre p e post a
  assume c: "checksums m = PDict entries"
    and h: "entries = pre @ (p, e) # post
           \<and> list_all (entry_verifies h se fs backup_root) pre
           \<and> path_exists se fs (path_join backup_root p) = Inr True
           \<and> calculate_file_checksum h fs (path_join backup_root p) = Inr a
           \<and> PStr a \<noteq> e"
  then have "verify_entries h se pr fs backup_root ((p, e) # post) =
               (case pr (ChecksumMismatch p e a) of None \<Rightarrow> Inr False | Some x \<Rightarrow> Inl x)"
    by (auto simp: Let_def split: option.splits)
  with h show "verify_checksums h se pr fs backup_root m =
                 (case pr (ChecksumMismatch p e a) of None \<Rightarrow> Inr False | Some x \<Rightarrow> Inl x)"
    by (simp add: verify_checksums_def c verify_entries_prefix)
next
  fix pre p e post err
  assume c: "checksums m = PDict entries"
    and h: "entries = pre @ (p, e) # post
           \<and> list_all (entry_verifies h se fs backup_root) pre
           \<and> (path_exists se fs (path_join backup_root p) = Inl err
                \<or> (path_exists se fs (path_join backup_root p) = Inr True
                    \<and> calculate_file_checksum h fs (path_join backup_root p) = Inl err))"
  then have "verify_entries h se pr fs backup_root ((p, e) # post) = Inl err"
    by (auto simp: Let_def)
  with h show "verify_checksums h se pr fs backup_root m = Inl err"
    by (simp add: verify_checksums_def c verify_entries_prefix)
qed

text \<open>Two files under \<open>r\<close> with their recorded checksums verify; after \<open>r/b\<close> is
  modified, or deleted, the verification returns \<open>False\<close>; and when \<open>r/b\<close> is a
  directory, opening it raises. (The hash function of the example is the identity,
  and printing works.)\<close>

theorem verify_checksums_correct_witness:
  "verify_checksums (\<lambda>c. c) (\<lambda>p. None) (\<lambda>msg. None)
      (\<lambda>p. if p = ''r/a'' then Some (RegFile ''x'') else if p = ''r/b'' then Some (RegFile ''y'') else None)
      ''r''
      \<lparr> backup_id = PStr ''b1'', backup_type = PStr ''full'', timestamp = PStr ''t'',
        hostname = PStr ''h'', kernel_version = PStr ''6.1'', bread_version = PStr ''0.1.0'',
        compression = PStr ''zstd'', parent_backup_id = PNone, components = PDict [],
        exclude_patterns = PList [],
        checksums = PDict [(''a'', PStr ''x''), (''b'', PStr ''y'')] \<rparr>
     = Inr True
   \<and> verify_checksums (\<lambda>c. c) (\<lambda>p. None) (\<lambda>msg. None)
      (\<lambda>p. if p = ''r/a'' then Some (RegFile ''x'') else if p = ''r/b'' then Some (RegFile ''z'') else None)
      ''r''
      \<lparr> backup_id = PStr ''b1'', backup_type = PStr ''full'', timestamp = PStr ''t'',
        hostname = PStr ''h'', kernel_version = PStr ''6.1'', bread_version = PStr ''0.1.0'',
        compression = PStr ''zstd'', parent_backup_id = PNone, components = PDict [],
        exclude_patterns = PList [],
        checksums = PDict [(''a'', PStr ''x''), (''b'', PStr ''y'')] \<rparr>
     = Inr False
   \<and> verify_checksums (\<lambda>c. c) (\<lambda>p. None) (\<lambda>msg. None)
      (\<lambda>p. if p = ''r/a'' then Some (RegFile ''x'') else None)
      ''r''
      \<lparr> backup_id = PStr ''b1'', backup_type = PStr ''full'', timestamp = PStr ''t'',
        hostname = PStr ''h'', kernel_version = PStr ''6.1'', bread_version = PStr ''0.1.0'',
        compression = PStr ''zstd'', parent_backup_id = PNone, components = PDict [],
        exclude_patterns = PList [],
        checksums = PDict [(''a'', PStr ''x''), (''b'', PStr ''y'')] \<rparr>
     = Inr False
   \<and> verify_checksums (\<lambda>c. c) (\<lambda>p. None) (\<lambda>msg. None)
      (\<lambda>p. if p = ''r/a'' then Some (RegFile ''x'') else if p = ''r/b'' then Some Directory else None)
      ''r''
      \<lparr> backup_id = PStr ''b1'', backup_type = PStr ''full'', timestamp = PStr ''t'',
        hostname = PStr ''h'', kernel_version = PStr ''6.1'', bread_version = PStr ''0.1.0'',
        compression = PStr ''zstd'', parent_backup_id = PNone, components = PDict [],
        exclude_patterns = PList [],
        checksums = PDict [(''a'', PStr ''x''), (''b'', PStr ''y'')] \<rparr>
     = Inl IsADirectoryError"
proof -
  let ?m = "\<lparr> backup_id = PStr ''b1'', backup_type = PStr ''full'', timestamp = PStr ''t'',
        hostname = PStr ''h'', kernel_version = PStr ''6.1'', bread_version = PStr ''0.1.0'',
        compression = PStr ''zstd'', parent_backup_id = PNone, components = PDict [],
        exclude_patterns = PList [],
        checksums = PDict [(''a'', PStr ''x''), (''b'', PStr ''y'')] \<rparr>"
  let ?es = "[(''a'', PStr ''x''), (''b'', PStr ''y'')]"
  let ?fs0 = "(\<lambda>p. if p = ''r/a'' then Some (RegFile ''x'') else if p = ''r/b'' then Some (RegFile ''y'') else None)"
  let ?fs1 = "(\<lambda>p. if p = ''r/a'' then Some (RegFile ''x'') else if p = ''r/b'' then Some (RegFile ''z'') else None)"
  let ?fs2 = "(\<lambda>p. if p = ''r/a'' then Some (RegFile ''x'') else None)"
  let ?fs3 = "(\<lambda>p. if p = ''r/a'' then Some (RegFile ''x'') else if p = ''r/b'' then Some Directory else None)"
  let ?se = "\<lambda>p::string. None :: error option"
  let ?pr = "\<lambda>msg::message. None :: error option"
  have c: "checksums ?m = PDict ?es" by simp
  note vc = verify_checksums_correct[OF c, of "\<lambda>c. c" ?se ?pr _ "''r''"]
  have 0: "verify_checksums (\<lambda>c. c) ?se ?pr ?fs0 ''r'' ?m = Inr True"
    using vc[of ?fs0]
    by (simp add: entry_verifies_def path_exists_def path_join_def calculate_file_checksum_def
          read_file_def)
  have 1: "verify_checksums (\<lambda>c. c) ?se ?pr ?fs1 ''r'' ?m = Inr False"
    using vc[of ?fs1, THEN conjunct2, THEN conjunct2, THEN conjunct1,
            rule_format, of "[(''a'', PStr ''x'')]" "''b''" "PStr ''y''" "[]" "''z''"]
    by (simp add: entry_verifies_def path_exists_def path_join_def calculate_file_checksum_def
          read_file_def)
  have 2: "verify_checksums (\<lambda>c. c) ?se ?pr ?fs2 ''r'' ?m = Inr False"
    using vc[of ?fs2, THEN conjunct2, THEN conjunct1,
            rule_format, of "[(''a'', PStr ''x'')]" "''b''" "PStr ''y''" "[]"]
    by (simp add: entry_verifies_def path_exists_def path_join_def calculate_file_checksum_def
          read_file_def)
  have 3: "verify_checksums (\<lambda>c. c) ?se ?pr ?fs3 ''r'' ?m = Inl IsADirectoryError"
    using vc[of ?fs3, THEN conjunct2, THEN conjunct2, THEN conjunct2,
            rule_format, of "[(''a'', PStr ''x'')]" "''b''" "PStr ''y''" "[]" IsADirectoryError]
    by (simp add: entry_verifies_def path_exists_def path_join_def calculate_file_checksum_def
          read_file_def)
  from 0 1 2 3 show ?thesis by simp
qed

text \<open>
  C3 as stated fails: the manifest lists a file whose name has 300 characters. No
  such file is under the root, and none can be: \<open>stat()\<close> raises an \<open>OSError\<close> (file
  name too long), \<open>full_path.exists()\<close> lets it through, and \<open>verify_checksums\<close> raises
  instead of returning \<open>False\<close>.
\<close>

theorem verify_checksums_missing_raises_counterexample:
  "(\<lambda>p. if p = ''r'' then Some (Directory :: string node) else None)
       (path_join ''r'' (replicate 300 CHR ''a'')) = None
   \<and> verify_checksums (\<lambda>c. c) (\<lambda>p. if 255 < length p then Some OSError else None) (\<lambda>msg. None)
      (\<lambda>p. if p = ''r'' then Some Directory else None)
      ''r''
      \<lparr> backup_id = PStr ''b1'', backup_type = PStr ''full'', timestamp = PStr ''t'',
        hostname = PStr ''h'', kernel_version = PStr ''6.1'', bread_version = PStr ''0.1.0'',
        compression = PStr ''zstd'', parent_backup_id = PNone, components = PDict [],
        exclude_patterns = PList [],
        checksums = PDict [(replicate 300 CHR ''a'', PStr ''x'')] \<rparr>
     = Inl OSError"
proof -
  have j: "path_join ''r'' (replicate 300 CHR ''a'') = ''r/'' @ replicate 300 CHR ''a''"
    by (simp add: path_join_def eval_nat_numeral)
  show ?thesis
    by (simp add: verify_checksums_def Let_def path_exists_def j)
qed

section \<open>Properties of the collector\<close>

text \<open>
  C9, as the code has it: once the output directory has been created (or was there)
  and the path of the configuration directory is determined,
  \<^item> when \<open>config_dir.exists()\<close> answers \<open>False\<close>, \<open>collect\<close> returns the summary with
    three zeros, without an error and without touching anything else; in verbose
    mode it prints a notice first, and an exception raised while printing
    propagates;
  \<^item> when \<open>config_dir.exists()\<close> raises, \<open>collect\<close> raises that exception.
\<close>

theorem collect_missing_config_dir:
  "mkdir_parents (env_create_error env) (env_fs env) output_dir = Inr fs' \<Longrightarrow>
   config_dir_of env username = Inr config_dir \<Longrightarrow>
   (path_exists (env_stat_error env) fs' config_dir = Inr False \<longrightarrow>
      collect collect_tree False env output_dir username
        = Inr (PDict [(''total_files'', PInt 0), (''total_size_bytes'', PInt 0),
                      (''skipped_files'', PInt 0)], fs')
      \<and> collect collect_tree True env output_dir username
        = (case env_print_error env (ConfigDirNotFound config_dir) of
             None \<Rightarrow> Inr (PDict [(''total_files'', PInt 0), (''total_size_bytes'', PInt 0),
                                 (''skipped_files'', PInt 0)], fs')
           | Some e \<Rightarrow> Inl e))
   \<and> (\<forall>e. path_exists (env_stat_error env) fs' config_dir = Inl e \<longrightarrow>
          collect collect_tree verbose env output_dir username = Inl e)"
  by (auto simp: collect_def empty_summary_def split: option.splits)

text \<open>The user \<open>alice\<close> has no configuration directory: the summary is empty, in
  verbose mode too. The home of \<open>bob\<close> may not be searched: \<open>exists()\<close> raises a
  \<open>PermissionError\<close>, and so does \<open>collect\<close>.\<close>

theorem collect_missing_config_dir_witness:
  "collect (\<lambda>fs out cfg. Inl RuntimeError) False
      \<lparr> env_fs = (\<lambda>p. if p = ''/home'' then Some (Directory :: string node) else None),
        env_create_error = (\<lambda>p. None),
        env_stat_error = (\<lambda>p. if p = ''/home/bob/.config'' then Some PermissionError else None),
        env_print_error = (\<lambda>msg. None),
        env_home = Inr ''/root'' \<rparr>
      ''/tmp/out'' (Some ''alice'')
    = Inr (PDict [(''total_files'', PInt 0), (''total_size_bytes'', PInt 0),
                  (''skipped_files'', PInt 0)],
           (\<lambda>p. if p = ''/home'' then Some Directory else None)
             (''/tmp'' \<mapsto> Directory, ''/tmp/out'' \<mapsto> Directory))
   \<and> collect (\<lambda>fs out cfg. Inl RuntimeError) True
      \<lparr> env_fs = (\<lambda>p. if p = ''/home'' then Some (Directory :: string node) else None),
        env_create_error = (\<lambda>p. None),
        env_stat_error = (\<lambda>p. if p = ''/home/bob/.config'' then Some PermissionError else None),
        env_print_error = (\<lambda>msg. None),
        env_home = Inr ''/root'' \<rparr>
      ''/tmp/out'' (Some ''alice'')
    = Inr (PDict [(''total_files'', PInt 0), (''total_size_bytes'', PInt 0),
                  (''skipped_files'', PInt 0)],
           (\<lambda>p. if p = ''/home'' then Some Directory else None)
             (''/tmp'' \<mapsto> Directory, ''/tmp/out'' \<mapsto> Directory))
   \<and> collect (\<lambda>fs out cfg. Inl RuntimeError) False
      \<lparr> env_fs = (\<lambda>p. if p = ''/home'' then Some (Directory :: string node) else None),
        env_create_error = (\<lambda>p. None),
        env_stat_error = (\<lambda>p. if p = ''/home/bob/.config'' then Some PermissionError else None),
        env_print_error = (\<lambda>msg. None),
        env_home = Inr ''/root'' \<rparr>
      ''/tmp/out'' (Some ''bob'')
    = Inl PermissionError"
proof -
  let ?env = "\<lparr> env_fs = (\<lambda>p. if p = ''/home'' then Some (Directory :: string node) else None),
        env_create_error = (\<lambda>p. None),
        env_stat_error = (\<lambda>p. if p = ''/home/bob/.config'' then Some PermissionError else None),
        env_print_error = (\<lambda>msg. None),
        env_home = Inr ''/root'' \<rparr>"
  let ?fs' = "(\<lambda>p. if p = ''/home'' then Some (Directory :: string node) else None)
                       (''/tmp'' \<mapsto> Directory, ''/tmp/out'' \<mapsto> Directory)"
  have mk: "mkdir_parents (env_create_error ?env) (env_fs ?env) ''/tmp/out'' = Inr ?fs'"
    by (simp add: mkdir_parents_def ancestors_def)
  have alice: "config_dir_of ?env (Some ''alice'') = Inr ''/home/alice/.config''"
    by (simp add: config_dir_of_def)
  have bob: "config_dir_of ?env (Some ''bob'') = Inr ''/home/bob/.config''"
    by (simp add: config_dir_of_def)
  have 1: "collect (\<lambda>fs out cfg. Inl RuntimeError) False ?env ''/tmp/out'' (Some ''alice'')
             = Inr (PDict [(''total_files'', PInt 0), (''total_size_bytes'', PInt 0),
                           (''skipped_files'', PInt 0)], ?fs')"
    and 2: "collect (\<lambda>fs out cfg. Inl RuntimeError) True ?env ''/tmp/out'' (Some ''alice'')
             = Inr (PDict [(''total_files'', PInt 0), (''total_size_bytes'', PInt 0),
                           (''skipped_files'', PInt 0)], ?fs')"
    using collect_missing_config_dir[OF mk alice, of "\<lambda>fs out cfg. Inl RuntimeError"]
    by (simp_all add: path_exists_def)
  have 3: "collect (\<lambda>fs out cfg. Inl RuntimeError) False ?env ''/tmp/out'' (Some ''bob'')
             = Inl PermissionError"
    using collect_missing_config_dir[OF mk bob, of "\<lambda>fs out cfg. Inl RuntimeError" False]
    by (simp add: path_exists_def)
  from 1 2 3 show ?thesis by simp
qed

text \<open>
  C9 as stated fails. The user name has 300 characters: the configuration directory
  does not exist, and the output directory is created, yet \<open>config_dir.exists()\<close>
  raises an \<open>OSError\<close> (file name too long) and so does \<open>collect\<close>. And when the output
  path is taken by a regular file, \<open>output_dir.mkdir(parents=True, exist_ok=True)\<close>
  raises before the configuration directory, which does not exist, is looked at.
\<close>

theorem collect_raises_counterexample:
  "((\<lambda>p. None)(''out'' \<mapsto> (Directory :: string node)))
       (''/home/'' @ replicate 300 CHR ''u'' @ ''/.config'') = None
   \<and> mkdir_parents (\<lambda>p. None) (\<lambda>p. None) ''out''
       = Inr ((\<lambda>p. None)(''out'' \<mapsto> (Directory :: string node)))
   \<and> collect (\<lambda>fs out cfg. Inl RuntimeError) False
      \<lparr> env_fs = (\<lambda>p. None :: string node option),
        env_create_error = (\<lambda>p. None),
        env_stat_error = (\<lambda>p. if 255 < length p then Some OSError else None),
        env_print_error = (\<lambda>msg. None),
        env_home = Inr ''/root'' \<rparr>
      ''out'' (Some (replicate 300 CHR ''u''))
    = Inl OSError
   \<and> (\<lambda>p. if p = ''out'' then Some (RegFile ''x'') else None) ''/home/alice/.config'' = None
   \<and> collect (\<lambda>fs out cfg. Inl RuntimeError) False
      \<lparr> env_fs = (\<lambda>p. if p = ''out'' then Some (RegFile ''x'') else None),
        env_create_error = (\<lambda>p. None),
        env_stat_error = (\<lambda>p. None),
        env_print_error = (\<lambda>msg. None),
        env_home = Inr ''/root'' \<rparr>
      ''out'' (Some ''alice'')
    = Inl FileExistsError"
proof -
  have u: "replicate 300 CHR ''u'' \<noteq> []"
    by (simp add: eval_nat_numeral)
  have mk: "mkdir_parents (\<lambda>p. None) (\<lambda>p. None) ''out''
              = Inr ((\<lambda>p. None)(''out'' \<mapsto> (Directory :: string node)))"
    by (simp add: mkdir_parents_def ancestors_def)
  have 1: "collect (\<lambda>fs out cfg. Inl RuntimeError) False
      \<lparr> env_fs = (\<lambda>p. None :: string node option),
        env_create_error = (\<lambda>p. None),
        env_stat_error = (\<lambda>p. if 255 < length p then Some OSError else None),
        env_print_error = (\<lambda>msg. None),
        env_home = Inr ''/root'' \<rparr>
      ''out'' (Some (replicate 300 CHR ''u'')) = Inl OSError"
    by (simp add: collect_def mk config_dir_of_def u path_exists_def)
  have 2: "collect (\<lambda>fs out cfg. Inl RuntimeError) False
      \<lparr> env_fs = (\<lambda>p. if p = ''out'' then Some (RegFile ''x'') else None),
        env_create_error = (\<lambda>p. None),
        env_stat_error = (\<lambda>p. None),
        env_print_error = (\<lambda>msg. None),
        env_home = Inr ''/root'' \<rparr>
      ''out'' (Some ''alice'') = Inl FileExistsError"
    by (simp add: collect_def mkdir_parents_def ancestors_def)
  from mk 1 2 show ?thesis by simp
qed

section \<open>Properties of the local storage\<close>












section \<open>Properties of the exclude patterns\<close>

lemma find_snoc:
  "find P (xs @ [y]) = (case find P xs of None \<Rightarrow> (if P y then Some y else None) | Some x \<Rightarrow> Some x)"
  by (induction xs) auto

lemma exclude_loop_last:
  "exclude_loop search excluded rules path =
     (case find (\<lambda>(neg, p). search p path) (rev rules) of
        None \<Rightarrow> excluded
      | Some (neg, _) \<Rightarrow> \<not> neg)"
proof (induction rules arbitrary: excluded)
  case Nil
  show ?case by simp
next
  case (Cons r rules)
  obtain neg p where r: "r = (neg, p)" by (cases r)
  show ?case
    by (cases "find (\<lambda>(neg, p). search p path) (rev rules)")
       (auto simp: r Cons.IH find_snoc)
qed

lemma add_patterns_snoc:
  "add_patterns compile acc (ps @ [p]) =
     (case add_patterns compile acc ps of
        Inl e \<Rightarrow> Inl e
      | Inr m \<Rightarrow> add_pattern compile m p)"
  by (induction ps arbitrary: acc) (auto split: sum.splits)

lemma log_rules:
  "ExcludePatternMatcher_init re_compile (Some [''*.log'', ''!keep.log'']) =
     Inr [(False, Seq (Group (Alt (Seq Bol Epsilon) (Seq (Star Dot) (Seq (Lit CHR ''/'') Epsilon))))
                   (Seq (Star (CSet True [SChar CHR ''/'']))
                     (Seq Dot (Seq (Lit CHR ''l'') (Seq (Lit CHR ''o'') (Seq (Lit CHR ''g'') (Seq Eol Epsilon))))))),
          (True, Seq (Group (Alt (Seq Bol Epsilon) (Seq (Star Dot) (Seq (Lit CHR ''/'') Epsilon))))
                   (Seq (Lit CHR ''k'') (Seq (Lit CHR ''e'') (Seq (Lit CHR ''e'') (Seq (Lit CHR ''p'')
                     (Seq Dot (Seq (Lit CHR ''l'') (Seq (Lit CHR ''o'') (Seq (Lit CHR ''g'') (Seq Eol Epsilon))))))))))]"
  by code_simp

lemma cache_rules:
  "ExcludePatternMatcher_init re_compile (Some [''**/cache/*'']) =
     Inr [(False, Seq (Group (Alt (Seq Bol Epsilon) (Seq (Star Dot) (Seq (Lit CHR ''/'') Epsilon))))
            (Seq (Group (Seq (CSet True [SChar CHR ''/''])
                          (Seq (Lit CHR '':'')
                            (Seq Dot
                              (Seq (Star (CSet True [SChar CHR ''/'']))
                                (Seq (Lit CHR ''/'') Epsilon))))))
              (Seq (CSet True [SChar CHR ''/''])
                (Seq (Lit CHR ''c'') (Seq (Lit CHR ''a'') (Seq (Lit CHR ''c'') (Seq (Lit CHR ''h'')
                  (Seq (Lit CHR ''e'') (Seq (Lit CHR ''/'')
                    (Seq (Star (CSet True [SChar CHR ''/''])) (Seq Eol Epsilon)))))))))))]"
  by code_simp

text \<open>
  C2: \<open>should_exclude\<close> returns what the last rule that matches the (normalised)
  path says, true for a plain rule and false for a negated one, and false when no
  rule matches; the rules stand in the order of the patterns they were added from;
  and with the patterns \<open>*.log\<close> and \<open>!keep.log\<close>, \<open>app.log\<close> is excluded and
  \<open>keep.log\<close> is not.
\<close>

theorem should_exclude_last_match_wins:
  "should_exclude search rules path =
      (case find (\<lambda>(neg, p). search p (normalize_path path)) (rev rules) of
         None \<Rightarrow> False
       | Some (neg, _) \<Rightarrow> \<not> neg)
   \<and> ExcludePatternMatcher_init compile (Some (ps @ [p])) =
       (case ExcludePatternMatcher_init compile (Some ps) of
          Inl e \<Rightarrow> Inl e
        | Inr m \<Rightarrow> add_pattern compile m p)
   \<and> (\<exists>m. ExcludePatternMatcher_init re_compile (Some [''*.log'', ''!keep.log'']) = Inr m
        \<and> should_exclude re_search m ''app.log''
        \<and> \<not> should_exclude re_search m ''keep.log'')"
proof (intro conjI)
  show "should_exclude search rules path =
      (case find (\<lambda>(neg, p). search p (normalize_path path)) (rev rules) of
         None \<Rightarrow> False
       | Some (neg, _) \<Rightarrow> \<not> neg)"
    by (simp add: should_exclude_def exclude_loop_last)
  show "ExcludePatternMatcher_init compile (Some (ps @ [p])) =
       (case ExcludePatternMatcher_init compile (Some ps) of
          Inl e \<Rightarrow> Inl e
        | Inr m \<Rightarrow> add_pattern compile m p)"
    by (simp add: ExcludePatternMatcher_init_def add_patterns_snoc)
  have app: "should_exclude re_search
       [(False, Seq (Group (Alt (Seq Bol Epsilon) (Seq (Star Dot) (Seq (Lit CHR ''/'') Epsilon))))
                   (Seq (Star (CSet True [SChar CHR ''/'']))
                     (Seq Dot (Seq (Lit CHR ''l'') (Seq (Lit CHR ''o'') (Seq (Lit CHR ''g'') (Seq Eol Epsilon))))))),
          (True, Seq (Group (Alt (Seq Bol Epsilon) (Seq (Star Dot) (Seq (Lit CHR ''/'') Epsilon))))
                   (Seq (Lit CHR ''k'') (Seq (Lit CHR ''e'') (Seq (Lit CHR ''e'') (Seq (Lit CHR ''p'')
                     (Seq Dot (Seq (Lit CHR ''l'') (Seq (Lit CHR ''o'') (Seq (Lit CHR ''g'') (Seq Eol Epsilon))))))))))] ''app.log''"
    by code_simp
  have keep: "\<not> should_exclude re_search
       [(False, Seq (Group (Alt (Seq Bol Epsilon) (Seq (Star Dot) (Seq (Lit CHR ''/'') Epsilon))))
                   (Seq (Star (CSet True [SChar CHR ''/'']))
                     (Seq Dot (Seq (Lit CHR ''l'') (Seq (Lit CHR ''o'') (Seq (Lit CHR ''g'') (Seq Eol Epsilon))))))),
          (True, Seq (Group (Alt (Seq Bol Epsilon) (Seq (Star Dot) (Seq (Lit CHR ''/'') Epsilon))))
                   (Seq (Lit CHR ''k'') (Seq (Lit CHR ''e'') (Seq (Lit CHR ''e'') (Seq (Lit CHR ''p'')
                     (Seq Dot (Seq (Lit CHR ''l'') (Seq (Lit CHR ''o'') (Seq (Lit CHR ''g'') (Seq Eol Epsilon))))))))))] ''keep.log''"
    by code_simp
  from log_rules app keep
  show "\<exists>m. ExcludePatternMatcher_init re_compile (Some [''*.log'', ''!keep.log'']) = Inr m
        \<and> should_exclude re_search m ''app.log''
        \<and> \<not> should_exclude re_search m ''keep.log''"
    by blast
qed

text \<open>
  C1 on the code: the later replacements of \<open>_glob_to_regex\<close> rewrite the \<open>*\<close> and the
  \<open>?\<close> of the text \<open>(?:.*/)?\<close> that the first replacement put in for \<open>**/\<close>. The
  pattern \<open>**/cache/*\<close> becomes a regular expression that asks for a colon, and the
  matcher excludes none of \<open>a/b/cache/x\<close>, \<open>cache/x\<close> and \<open>cache\<close>.
\<close>

theorem should_exclude_cache_pattern:
  "glob_to_regex ''**/cache/*'' = ''(?:^|.*/)([^/]:.[^/]*/)[^/]cache/[^/]*$''
   \<and> (\<exists>m. ExcludePatternMatcher_init re_compile (Some [''**/cache/*'']) = Inr m
        \<and> \<not> should_exclude re_search m ''a/b/cache/x''
        \<and> \<not> should_exclude re_search m ''cache/x''
        \<and> \<not> should_exclude re_search m ''cache''
        \<and> should_exclude re_search m ''a:b/xcache/y'')"
proof (intro conjI)
  show "glob_to_regex ''**/cache/*'' = ''(?:^|.*/)([^/]:.[^/]*/)[^/]cache/[^/]*$''"
    by code_simp
  have 1: "\<not> should_exclude re_search
       [(False, Seq (Group (Alt (Seq Bol Epsilon) (Seq (Star Dot) (Seq (Lit CHR ''/'') Epsilon))))
            (Seq (Group (Seq (CSet True [SChar CHR ''/''])
                          (Seq (Lit CHR '':'')
                            (Seq Dot
                              (Seq (Star (CSet True [SChar CHR ''/'']))
                                (Seq (Lit CHR ''/'') Epsilon))))))
              (Seq (CSet True [SChar CHR ''/''])
                (Seq (Lit CHR ''c'') (Seq (Lit CHR ''a'') (Seq (Lit CHR ''c'') (Seq (Lit CHR ''h'')
                  (Seq (Lit CHR ''e'') (Seq (Lit CHR ''/'')
                    (Seq (Star (CSet True [SChar CHR ''/''])) (Seq Eol Epsilon)))))))))))] ''a/b/cache/x''"
    by code_simp
  have 2: "\<not> should_exclude re_search
       [(False, Seq (Group (Alt (Seq Bol Epsilon) (Seq (Star Dot) (Seq (Lit CHR ''/'') Epsilon))))
            (Seq (Group (Seq (CSet True [SChar CHR ''/''])
                          (Seq (Lit CHR '':'')
                            (Seq Dot
                              (Seq (Star (CSet True [SChar CHR ''/'']))
                                (Seq (Lit CHR ''/'') Epsilon))))))
              (Seq (CSet True [SChar CHR ''/''])
                (Seq (Lit CHR ''c'') (Seq (Lit CHR ''a'') (Seq (Lit CHR ''c'') (Seq (Lit CHR ''h'')
                  (Seq (Lit CHR ''e'') (Seq (Lit CHR ''/'')
                    (Seq (Star (CSet True [SChar CHR ''/''])) (Seq Eol Epsilon)))))))))))] ''cache/x''"
    by code_simp
  have 3: "\<not> should_exclude re_search
       [(False, Seq (Group (Alt (Seq Bol Epsilon) (Seq (Star Dot) (Seq (Lit CHR ''/'') Epsilon))))
            (Seq (Group (Seq (CSet True [SChar CHR ''/''])
                          (Seq (Lit CHR '':'')
                            (Seq Dot
                              (Seq (Star (CSet True [SChar CHR ''/'']))
                                (Seq (Lit CHR ''/'') Epsilon))))))
              (Seq (CSet True [SChar CHR ''/''])
                (Seq (Lit CHR ''c'') (Seq (Lit CHR ''a'') (Seq (Lit CHR ''c'') (Seq (Lit CHR ''h'')
                  (Seq (Lit CHR ''e'') (Seq (Lit CHR ''/'')
                    (Seq (Star (CSet True [SChar CHR ''/''])) (Seq Eol Epsilon)))))))))))] ''cache''"
    by code_simp
  have 4: "should_exclude re_search
       [(False, Seq (Group (Alt (Seq Bol Epsilon) (Seq (Star Dot) (Seq (Lit CHR ''/'') Epsilon))))
            (Seq (Group (Seq (CSet True [SChar CHR ''/''])
                          (Seq (Lit CHR '':'')
                            (Seq Dot
                              (Seq (Star (CSet True [SChar CHR ''/'']))
                                (Seq (Lit CHR ''/'') Epsilon))))))
              (Seq (CSet True [SChar CHR ''/''])
                (Seq (Lit CHR ''c'') (Seq (Lit CHR ''a'') (Seq (Lit CHR ''c'') (Seq (Lit CHR ''h'')
                  (Seq (Lit CHR ''e'') (Seq (Lit CHR ''/'')
                    (Seq (Star (CSet True [SChar CHR ''/''])) (Seq Eol Epsilon)))))))))))] ''a:b/xcache/y''"
    by code_simp
  from cache_rules 1 2 3 4
  show "\<exists>m. ExcludePatternMatcher_init re_compile (Some [''**/cache/*'']) = Inr m
        \<and> \<not> should_exclude re_search m ''a/b/cache/x''
        \<and> \<not> should_exclude re_search m ''cache/x''
        \<and> \<not> should_exclude re_search m ''cache''
        \<and> should_exclude re_search m ''a:b/xcache/y''"
    by blast
qed

end
